theory Spec2Isabelle
  imports Main "HOL-Library.Word" "HOL-Library.Signed_Division"
begin

section \<open>Go values used by the WorkloadSpread validating webhook\<close>

text \<open>
  The embedding follows \<^verbatim>\<open>pkg/webhook/workloadspread/validating/workloadspread_validation.go\<close>.
  Go's \<^verbatim>\<open>int32\<close> is a 32-bit word and Go's \<^verbatim>\<open>int\<close> a 64-bit word, both read as two's
  complement (\<open>sint\<close>, \<open><s\<close>); \<open>+\<close> on words wraps as Go's does. A Go \<^verbatim>\<open>error\<close> is
  \<open>None\<close> (nil) or \<open>Some\<close> of its message. A pointer that may be nil is an \<open>option\<close>,
  a byte slice is a \<open>string\<close>, and a slice that the code compares with nil is an
  \<open>option\<close> of a list.
\<close>

type_synonym int32 = "32 word"
type_synonym goint = "64 word"
type_synonym error = "string option"

text \<open>A run-time panic is a value: a function that can panic returns \<open>panic + 'a\<close>.\<close>

datatype panic = NilPointerDereference | InterfaceConversion | IntegerDivideByZero

subsection \<open>API objects\<close>

record GroupVersion =
  Group :: string
  Version :: string

record GroupVersionKind =
  Group :: string
  Version :: string
  Kind :: string

record TargetReference =
  APIVersion :: string
  Kind :: string
  Name :: string

datatype intstr_Type = intstr_Int | intstr_String

record IntOrString =
  Type :: intstr_Type
  IntVal :: int32
  StrVal :: string

text \<open>
  Objects of the Kubernetes API that the validator only hands to library functions carry
  an opaque payload.
\<close>

datatype v1_NodeSelectorTerm = v1_NodeSelectorTerm string
datatype core_NodeSelectorTerm = core_NodeSelectorTerm string
datatype v1_PreferredSchedulingTerm = v1_PreferredSchedulingTerm string
datatype core_PreferredSchedulingTerm = core_PreferredSchedulingTerm string
datatype v1_Toleration = v1_Toleration string
datatype core_Toleration = core_Toleration string
datatype v1_Pod = v1_Pod string
datatype core_Pod = core_Pod string
datatype LabelSelector = LabelSelector string

datatype VolumeSource = PersistentVolumeClaimVolumeSource string | OtherVolumeSource string

record Volume =
  Name :: string
  VolumeSource :: VolumeSource

record PersistentVolumeClaim =
  Name :: string

record PodTemplateSpec =
  Volumes :: "Volume list"
  OtherFields :: string

record RawExtension =
  Raw :: "string option"

record WorkloadSpreadSubset =
  Name :: string
  RequiredNodeSelectorTerm :: "v1_NodeSelectorTerm option"
  PreferredNodeSelectorTerms :: "v1_PreferredSchedulingTerm list option"
  Tolerations :: "v1_Toleration list option"
  MaxReplicas :: "IntOrString option"
  Patch :: RawExtension

record AdaptiveWorkloadSpreadStrategy =
  DisableSimulationSchedule :: bool
  RescheduleCriticalSeconds :: "int32 option"

record WorkloadSpreadScheduleStrategy =
  Type :: string
  Adaptive :: "AdaptiveWorkloadSpreadStrategy option"

record TargetFilter =
  Selector :: "LabelSelector option"
  ReplicasPathList :: "string list"

record WorkloadSpreadSpec =
  TargetReference :: "TargetReference option"
  TargetFilter :: "TargetFilter option"
  Subsets :: "WorkloadSpreadSubset list"
  ScheduleStrategy :: WorkloadSpreadScheduleStrategy

record ObjectMeta =
  Name :: string
  Namespace :: string

record WorkloadSpread =
  ObjectMeta :: ObjectMeta
  Spec :: WorkloadSpreadSpec

text \<open>
  A workload fetched through the client: the dynamic Go type of the object the caller
  passed to \<^verbatim>\<open>Get\<close>, and the parts of it the validator reads, which are the
  group/version/kind of its type metadata, its pod template and its volume claim
  templates (CloneSet and StatefulSet only).
\<close>

datatype GoType =
  appsv1alpha1_CloneSet | appsv1_Deployment | appsv1_ReplicaSet | batchv1_Job | appsv1_StatefulSet

record Workload =
  TypeMeta :: GroupVersionKind
  Template :: PodTemplateSpec
  VolumeClaimTemplates :: "PersistentVolumeClaim list"

datatype ClientObject = ClientObject GoType Workload

record CustomWorkload =
  Group :: string
  Version :: string
  Kind :: string

subsection \<open>Field paths and field errors (\<^verbatim>\<open>k8s.io/apimachinery/pkg/util/validation/field\<close>)\<close>

text \<open>
  A path is the list of its elements from the root. Go stores the rendering of the path
  in the error (\<^verbatim>\<open>spec.subsets[1].patch\<close>); the model keeps the elements.
\<close>

datatype PathElement = PathName string | PathIndex nat

type_synonym Path = "PathElement list"

definition NewPath :: "string \<Rightarrow> Path" where
  "NewPath name = [PathName name]"

definition Child :: "Path \<Rightarrow> string \<Rightarrow> Path" where
  "Child p name = p @ [PathName name]"

definition Index :: "Path \<Rightarrow> nat \<Rightarrow> Path" where
  "Index p i = p @ [PathIndex i]"

datatype ErrorType =
  ErrorTypeNotFound | ErrorTypeRequired | ErrorTypeDuplicate | ErrorTypeInvalid
  | ErrorTypeNotSupported | ErrorTypeForbidden | ErrorTypeTooLong | ErrorTypeTooMany
  | ErrorTypeInternal | ErrorTypeTypeInvalid

text \<open>The \<^verbatim>\<open>interface{}\<close> stored as the bad value, by the type of what the validator stores.\<close>

datatype BadValue =
  BadNil
  | BadString string
  | BadTargetReference "TargetReference option"
  | BadIntOrString "IntOrString option"
  | BadInt32 "int32 option"
  | BadNodeSelectorTerm "v1_NodeSelectorTerm option"
  | BadPreferredSchedulingTerms "v1_PreferredSchedulingTerm list option"
  | BadTolerations "v1_Toleration list option"
  | BadPod v1_Pod
  | BadTargetFilter "TargetFilter option"

record Error =
  Type :: ErrorType
  Field :: Path
  BadValue :: BadValue
  Detail :: string

type_synonym ErrorList = "Error list"

definition Invalid :: "Path \<Rightarrow> BadValue \<Rightarrow> string \<Rightarrow> Error" where
  "Invalid field val detail =
     \<lparr>Error.Type = ErrorTypeInvalid, Field = field, BadValue = val, Detail = detail\<rparr>"

definition Required :: "Path \<Rightarrow> string \<Rightarrow> Error" where
  "Required field detail =
     \<lparr>Error.Type = ErrorTypeRequired, Field = field, BadValue = BadString [], Detail = detail\<rparr>"

definition InternalError :: "Path \<Rightarrow> string \<Rightarrow> Error" where
  "InternalError field err =
     \<lparr>Error.Type = ErrorTypeInternal, Field = field, BadValue = BadNil, Detail = err\<rparr>"

subsection \<open>The collaborators\<close>

text \<open>
  Everything the validator calls outside its own file is a field of the environment, with
  the signature of the Go function: the API-machinery parsers, the conversions and
  structural validators of the Kubernetes core API, the JSON codec and the strategic merge,
  the client reads, and the configured allow-list of custom workloads. A function that
  returns a value and an error returns a pair; a pointer result may be nil. The theorems
  hold for every environment.
\<close>

record Env =
  ParseGroupVersion :: "string \<Rightarrow> GroupVersion \<times> error"
  Client_Get :: "GoType \<Rightarrow> string \<Rightarrow> string \<Rightarrow> string + Workload"
  Client_List :: "string \<Rightarrow> string + WorkloadSpread list"
  GetWSWatchCustomWorkloadWhiteList :: "CustomWorkload list \<times> error"
  Convert_v1_NodeSelectorTerm_To_core_NodeSelectorTerm ::
    "v1_NodeSelectorTerm \<Rightarrow> core_NodeSelectorTerm \<times> error"
  ValidateNodeSelectorTerm :: "core_NodeSelectorTerm \<Rightarrow> bool \<Rightarrow> Path \<Rightarrow> ErrorList"
  Convert_v1_PreferredSchedulingTerm_To_core_PreferredSchedulingTerm ::
    "v1_PreferredSchedulingTerm \<Rightarrow> core_PreferredSchedulingTerm \<times> error"
  ValidatePreferredSchedulingTerms :: "core_PreferredSchedulingTerm list \<Rightarrow> Path \<Rightarrow> ErrorList"
  Convert_v1_Toleration_To_core_Toleration :: "v1_Toleration \<Rightarrow> core_Toleration \<times> error"
  ValidateTolerations :: "core_Toleration list \<Rightarrow> Path \<Rightarrow> ErrorList"
  json_Marshal :: "PodTemplateSpec \<Rightarrow> string"
  StrategicMergePatch :: "string \<Rightarrow> string \<Rightarrow> string \<times> error"
  json_Unmarshal :: "string \<Rightarrow> v1_Pod \<times> error"
  ConvertPod :: "v1_Pod \<Rightarrow> core_Pod option \<times> error"
  ValidatePodSpec :: "core_Pod \<Rightarrow> Path \<Rightarrow> ErrorList"
  GetValueFromIntOrPercent :: "IntOrString \<Rightarrow> goint \<Rightarrow> bool \<Rightarrow> goint \<times> error"
  LabelSelectorAsSelector :: "LabelSelector option \<Rightarrow> error"
  ValidateObjectMetaUpdate :: "ObjectMeta \<Rightarrow> ObjectMeta \<Rightarrow> Path \<Rightarrow> ErrorList"

section \<open>The validator\<close>

subsection \<open>Constants\<close>

text \<open>
  \<^verbatim>\<open>MaxScheduledFailedDuration = 300 * time.Second\<close>; its \<^verbatim>\<open>Seconds()\<close> is the float 300.
\<close>

definition MaxScheduledFailedDuration_Seconds :: int where
  "MaxScheduledFailedDuration_Seconds = 300"

text \<open>
  The controller kinds are the scheme group and version of each API package with a kind:
  \<^verbatim>\<open>apps.kruise.io/v1alpha1\<close> and \<^verbatim>\<open>apps.kruise.io/v1beta1\<close> for Kruise, \<^verbatim>\<open>apps/v1\<close> and
  \<^verbatim>\<open>batch/v1\<close> for Kubernetes.
\<close>

definition WithKind :: "string \<Rightarrow> string \<Rightarrow> string \<Rightarrow> GroupVersionKind" where
  "WithKind g v k = \<lparr>GroupVersionKind.Group = g, Version = v, Kind = k\<rparr>"

definition controllerKruiseKindCS :: GroupVersionKind where
  "controllerKruiseKindCS = WithKind ''apps.kruise.io'' ''v1alpha1'' ''CloneSet''"

definition controllerKindSts :: GroupVersionKind where
  "controllerKindSts = WithKind ''apps'' ''v1'' ''StatefulSet''"

definition controllerKindRS :: GroupVersionKind where
  "controllerKindRS = WithKind ''apps'' ''v1'' ''ReplicaSet''"

definition controllerKindDep :: GroupVersionKind where
  "controllerKindDep = WithKind ''apps'' ''v1'' ''Deployment''"

definition controllerKindJob :: GroupVersionKind where
  "controllerKindJob = WithKind ''batch'' ''v1'' ''Job''"

definition controllerKruiseKindBetaSts :: GroupVersionKind where
  "controllerKruiseKindBetaSts = WithKind ''apps.kruise.io'' ''v1beta1'' ''StatefulSet''"

definition controllerKruiseKindAlphaSts :: GroupVersionKind where
  "controllerKruiseKindAlphaSts = WithKind ''apps.kruise.io'' ''v1alpha1'' ''StatefulSet''"

definition FixedWorkloadSpreadScheduleStrategyType :: string where
  "FixedWorkloadSpreadScheduleStrategyType = ''Fixed''"

definition AdaptiveWorkloadSpreadScheduleStrategyType :: string where
  "AdaptiveWorkloadSpreadScheduleStrategyType = ''Adaptive''"

subsection \<open>\<^verbatim>\<open>verifyGroupKind\<close>\<close>

definition verifyGroupKind :: "Env \<Rightarrow> TargetReference \<Rightarrow> string \<Rightarrow> string list \<Rightarrow> bool \<times> error" where
  "verifyGroupKind env ref expectedKind expectedGroups =
     (case ParseGroupVersion env (APIVersion ref) of
        (gv, Some err) \<Rightarrow> (False, Some err)
      | (gv, None) \<Rightarrow>
          if TargetReference.Kind ref \<noteq> expectedKind then (False, None)
          else if list_ex (\<lambda>group. group = GroupVersion.Group gv) expectedGroups then (True, None)
          else (False, None))"

subsection \<open>\<^verbatim>\<open>validateWorkloadSpreadConflict\<close>\<close>

text \<open>
  The loop over the siblings. The error list is empty until the one append, which is
  followed by the return, so the loop carries no accumulator.
\<close>

fun validateWorkloadSpreadConflict ::
  "Env \<Rightarrow> WorkloadSpread \<Rightarrow> WorkloadSpread list \<Rightarrow> Path \<Rightarrow> ErrorList" where
  "validateWorkloadSpreadConflict env ws [] fldPath = []"
| "validateWorkloadSpreadConflict env ws (other # others) fldPath =
     (if ObjectMeta.Name (ObjectMeta other) = ObjectMeta.Name (ObjectMeta ws)
      then validateWorkloadSpreadConflict env ws others fldPath
      else
        (case (TargetReference (Spec ws), TargetReference (Spec other)) of
           (Some targetRef1, Some targetRef2) \<Rightarrow>
             (let gv1 = fst (ParseGroupVersion env (APIVersion targetRef1));
                  gv2 = fst (ParseGroupVersion env (APIVersion targetRef2))
              in if GroupVersion.Group gv1 = GroupVersion.Group gv2
                    \<and> TargetReference.Kind targetRef1 = TargetReference.Kind targetRef2
                    \<and> TargetReference.Name targetRef1 = TargetReference.Name targetRef2
                 then [Invalid (Child fldPath ''targetRef'') (BadTargetReference (Some targetRef1))
                         (''ws.spec.targetRef is in conflict with other WorkloadSpread ''
                            @ ObjectMeta.Name (ObjectMeta other))]
                 else validateWorkloadSpreadConflict env ws others fldPath)
         | _ \<Rightarrow> validateWorkloadSpreadConflict env ws others fldPath))"

subsection \<open>\<^verbatim>\<open>validateWorkloadSpreadTargetRefUpdate\<close> and \<^verbatim>\<open>validateWorkloadSpreadUpdate\<close>\<close>

definition validateWorkloadSpreadTargetRefUpdate ::
  "Env \<Rightarrow> TargetReference option \<Rightarrow> TargetReference option \<Rightarrow> Path \<Rightarrow> ErrorList" where
  "validateWorkloadSpreadTargetRefUpdate env targetRef oldTargetRef fldPath =
     (case (targetRef, oldTargetRef) of
        (Some new, Some old) \<Rightarrow>
          (let gv1 = fst (ParseGroupVersion env (APIVersion new));
               gv2 = fst (ParseGroupVersion env (APIVersion old))
           in if GroupVersion.Group gv1 \<noteq> GroupVersion.Group gv2
                 \<or> TargetReference.Kind new \<noteq> TargetReference.Kind old
                 \<or> TargetReference.Name new \<noteq> TargetReference.Name old
              then [Invalid (Child fldPath ''targetRef'') (BadTargetReference targetRef)
                      ''change TargetReference is not permitted for WorkloadSpread'']
              else [])
      | _ \<Rightarrow> [])"

definition validateWorkloadSpreadUpdate :: "Env \<Rightarrow> WorkloadSpread \<Rightarrow> WorkloadSpread \<Rightarrow> ErrorList" where
  "validateWorkloadSpreadUpdate env new old =
     ValidateObjectMetaUpdate env (ObjectMeta new) (ObjectMeta old) (NewPath ''metadata'')
     @ validateWorkloadSpreadTargetRefUpdate env
         (TargetReference (Spec new)) (TargetReference (Spec old)) (NewPath ''spec'')"

subsection \<open>\<^verbatim>\<open>validateWorkloadSpreadSubsets\<close>\<close>

text \<open>
  The state of the loop over the subsets: the four variables the loop body assigns.
\<close>

record LoopState =
  allErrs :: ErrorList
  subSetNames :: "string set"
  maxReplicasSum :: goint
  firstMaxReplicasType :: "intstr_Type option"

text \<open>
  One pass of the loop body continues with a new state, returns the error list from the
  function, or panics.
\<close>

datatype LoopOutcome = Continue LoopState | Return ErrorList | Panicked panic

text \<open>Lines 246 to 255: the name of the subset and the set of the names seen.\<close>

definition validateSubsetName ::
  "Path \<Rightarrow> nat \<Rightarrow> string \<Rightarrow> string set \<Rightarrow> ErrorList \<times> string set" where
  "validateSubsetName fldPath i subsetName names =
     (if subsetName = [] then
        ([Invalid (Child (Index fldPath i) ''name'') (BadString subsetName) []], names)
      else
        ((if subsetName \<in> names then
            [Invalid (Child (Index fldPath i) ''name'') (BadString subsetName)
               (''duplicated subset name '' @ subsetName)]
          else []),
         insert subsetName names))"

text \<open>Lines 261 to 268: the required node selector term.\<close>

definition validateRequiredNodeSelectorTerm ::
  "Env \<Rightarrow> Path \<Rightarrow> nat \<Rightarrow> WorkloadSpreadSubset \<Rightarrow> ErrorList" where
  "validateRequiredNodeSelectorTerm env fldPath i subset' =
     (case RequiredNodeSelectorTerm subset' of
        None \<Rightarrow> []
      | Some term \<Rightarrow>
          (case Convert_v1_NodeSelectorTerm_To_core_NodeSelectorTerm env term of
             (coreNodeSelectorTerm, Some err) \<Rightarrow>
               [Invalid (Child (Index fldPath i) ''requiredNodeSelectorTerm'')
                  (BadNodeSelectorTerm (Some term))
                  (''Convert_v1_NodeSelectorTerm_To_core_NodeSelectorTerm failed: '' @ err)]
           | (coreNodeSelectorTerm, None) \<Rightarrow>
               ValidateNodeSelectorTerm env coreNodeSelectorTerm False
                 (Child (Index fldPath i) ''requiredNodeSelectorTerm'')))"

text \<open>
  Lines 270 to 282: the inner loop converts each preferred term; its index shadows the
  subset's index, so a conversion error is placed at the index of the term. The terms that
  converted are validated together at the index of the subset.
\<close>

fun convertPreferredSchedulingTerms ::
  "Env \<Rightarrow> Path \<Rightarrow> v1_PreferredSchedulingTerm list option \<Rightarrow> nat \<Rightarrow> v1_PreferredSchedulingTerm list
     \<Rightarrow> ErrorList \<times> core_PreferredSchedulingTerm list" where
  "convertPreferredSchedulingTerms env fldPath whole j [] = ([], [])"
| "convertPreferredSchedulingTerms env fldPath whole j (term # terms) =
     (case convertPreferredSchedulingTerms env fldPath whole (Suc j) terms of
        (errs, converted) \<Rightarrow>
          (case Convert_v1_PreferredSchedulingTerm_To_core_PreferredSchedulingTerm env term of
             (corePreferredSchedulingTerm, Some err) \<Rightarrow>
               (Invalid (Child (Index fldPath j) ''preferredSchedulingTerms'')
                  (BadPreferredSchedulingTerms whole)
                  (''Convert_v1_PreferredSchedulingTerm_To_core_PreferredSchedulingTerm failed: '' @ err)
                # errs, converted)
           | (corePreferredSchedulingTerm, None) \<Rightarrow>
               (errs, corePreferredSchedulingTerm # converted)))"

definition validatePreferredNodeSelectorTerms ::
  "Env \<Rightarrow> Path \<Rightarrow> nat \<Rightarrow> WorkloadSpreadSubset \<Rightarrow> ErrorList" where
  "validatePreferredNodeSelectorTerms env fldPath i subset' =
     (case PreferredNodeSelectorTerms subset' of
        None \<Rightarrow> []
      | Some terms \<Rightarrow>
          (case convertPreferredSchedulingTerms env fldPath (Some terms) 0 terms of
             (errs, corePreferredSchedulingTerms) \<Rightarrow>
               errs @ ValidatePreferredSchedulingTerms env corePreferredSchedulingTerms
                        (Child (Index fldPath i) ''preferredSchedulingTerms'')))"

text \<open>Lines 285 to 296: the tolerations, in the same way.\<close>

fun convertTolerations ::
  "Env \<Rightarrow> Path \<Rightarrow> v1_Toleration list option \<Rightarrow> nat \<Rightarrow> v1_Toleration list
     \<Rightarrow> ErrorList \<times> core_Toleration list" where
  "convertTolerations env fldPath whole j [] = ([], [])"
| "convertTolerations env fldPath whole j (toleration # tolerations) =
     (case convertTolerations env fldPath whole (Suc j) tolerations of
        (errs, converted) \<Rightarrow>
          (case Convert_v1_Toleration_To_core_Toleration env toleration of
             (coreToleration, Some err) \<Rightarrow>
               (Invalid (Child (Index fldPath j) ''tolerations'') (BadTolerations whole)
                  (''Convert_v1_Toleration_To_core_Toleration failed: '' @ err)
                # errs, converted)
           | (coreToleration, None) \<Rightarrow> (errs, coreToleration # converted)))"

definition validateTolerations ::
  "Env \<Rightarrow> Path \<Rightarrow> nat \<Rightarrow> WorkloadSpreadSubset \<Rightarrow> ErrorList" where
  "validateTolerations env fldPath i subset' =
     (case Tolerations subset' of
        None \<Rightarrow> []
      | Some tolerations \<Rightarrow>
          (case convertTolerations env fldPath (Some tolerations) 0 tolerations of
             (errs, coreTolerations) \<Rightarrow>
               errs @ ValidateTolerations env coreTolerations
                        (Child (Index fldPath i) ''tolerations'')))"

text \<open>\<^verbatim>\<open>withVolumeClaimTemplates\<close>: one more pod volume for each claim, named as the claim.\<close>

definition withVolumeClaimTemplates ::
  "PodTemplateSpec \<Rightarrow> PersistentVolumeClaim list \<Rightarrow> PodTemplateSpec" where
  "withVolumeClaimTemplates pod claims =
     pod\<lparr>Volumes := Volumes pod @
           map (\<lambda>pvc. \<lparr>Volume.Name = PersistentVolumeClaim.Name pvc,
                        VolumeSource = PersistentVolumeClaimVolumeSource (PersistentVolumeClaim.Name pvc)\<rparr>)
             claims\<rparr>"

text \<open>
  Lines 302 to 316: the switch on the group/version/kind of the fetched object. Each case
  asserts the Go type of the object, which panics on another type; with no case matching,
  the pod template keeps its zero value.
\<close>

definition zeroPodTemplateSpec :: PodTemplateSpec where
  "zeroPodTemplateSpec = \<lparr>Volumes = [], OtherFields = []\<rparr>"

definition podTemplateOf :: "ClientObject \<Rightarrow> panic + PodTemplateSpec" where
  "podTemplateOf workloadTemplate =
     (case workloadTemplate of
        ClientObject t w \<Rightarrow>
          if TypeMeta w = controllerKruiseKindCS then
            (if t = appsv1alpha1_CloneSet
             then Inr (withVolumeClaimTemplates (Template w) (VolumeClaimTemplates w))
             else Inl InterfaceConversion)
          else if TypeMeta w = controllerKindDep then
            (if t = appsv1_Deployment then Inr (Template w) else Inl InterfaceConversion)
          else if TypeMeta w = controllerKindRS then
            (if t = appsv1_ReplicaSet then Inr (Template w) else Inl InterfaceConversion)
          else if TypeMeta w = controllerKindJob then
            (if t = batchv1_Job then Inr (Template w) else Inl InterfaceConversion)
          else if TypeMeta w = controllerKindSts then
            (if t = appsv1_StatefulSet
             then Inr (withVolumeClaimTemplates (Template w) (VolumeClaimTemplates w))
             else Inl InterfaceConversion)
          else Inr zeroPodTemplateSpec)"

text \<open>
  Lines 317 to 330, for a patch and a pod template: merge, unmarshal, convert, validate.
  No step is skipped when an earlier one failed: after a failed merge the bytes it returned
  are unmarshalled all the same, and the pod is converted and validated. The message of a
  failed conversion prints \<^verbatim>\<open>err\<close>, which holds the error of the unmarshalling (\<^verbatim>\<open><nil>\<close> when
  there was none). The pod specification is read through the pointer the conversion
  returned, which panics when that is nil.
\<close>

definition simulatePatch :: "Env \<Rightarrow> Path \<Rightarrow> nat \<Rightarrow> string \<Rightarrow> PodTemplateSpec \<Rightarrow> panic + ErrorList" where
  "simulatePatch env fldPath i raw podSpec =
     (let podBytes = json_Marshal env podSpec in
      case StrategicMergePatch env podBytes raw of
        (modified, err) \<Rightarrow>
          (let mergeErrs =
                 (case err of
                    Some e \<Rightarrow> [Invalid (Child (Index fldPath i) ''patch'') (BadString raw)
                                 (''failed to merge patch: '' @ e)]
                  | None \<Rightarrow> [])
           in case json_Unmarshal env modified of
                (newPod, err) \<Rightarrow>
                  (let unmarshalErrs =
                         (case err of
                            Some e \<Rightarrow> [Invalid (Child (Index fldPath i) ''patch'') (BadString raw)
                                         (''failed to unmarshal: '' @ e)]
                          | None \<Rightarrow> [])
                   in case ConvertPod env newPod of
                        (coreNewPod, CovErr) \<Rightarrow>
                          (let convertErrs =
                                 (case CovErr of
                                    Some c \<Rightarrow>
                                      [Invalid (Child (Index fldPath i) ''patch'') (BadPod newPod)
                                         (''Convert_v1_Pod_To_core_Pod failed: ''
                                            @ (case err of Some e \<Rightarrow> e | None \<Rightarrow> ''<nil>''))]
                                  | None \<Rightarrow> [])
                           in case coreNewPod of
                                None \<Rightarrow> Inl NilPointerDereference
                              | Some pod \<Rightarrow>
                                  Inr (mergeErrs @ unmarshalErrs @ convertErrs
                                       @ ValidatePodSpec env pod (Child (Index fldPath i) ''patch''))))))"

text \<open>Lines 298 to 332: the patch is simulated only with a patch and a fetched workload.\<close>

definition validateSubsetPatch ::
  "Env \<Rightarrow> ClientObject option \<Rightarrow> Path \<Rightarrow> nat \<Rightarrow> WorkloadSpreadSubset \<Rightarrow> panic + ErrorList" where
  "validateSubsetPatch env workloadTemplate fldPath i subset' =
     (case Raw (Patch subset') of
        None \<Rightarrow> Inr []
      | Some raw \<Rightarrow>
          (case workloadTemplate of
             None \<Rightarrow> Inr []
           | Some obj \<Rightarrow>
               (case podTemplateOf obj of
                  Inl p \<Rightarrow> Inl p
                | Inr podSpec \<Rightarrow> simulatePatch env fldPath i raw podSpec)))"

text \<open>Lines 345 to 362: the checks of a replica cap once its type agrees with the first.\<close>

definition checkMaxReplicas ::
  "Env \<Rightarrow> WorkloadSpread \<Rightarrow> Path \<Rightarrow> nat \<Rightarrow> IntOrString \<Rightarrow> LoopState \<Rightarrow> LoopOutcome" where
  "checkMaxReplicas env ws fldPath i mr st =
     (if (case TargetReference (Spec ws) of
            None \<Rightarrow> False
          | Some ref \<Rightarrow> TargetReference.Kind ref = GroupVersionKind.Kind controllerKindSts)
         \<and> IntOrString.Type mr \<noteq> intstr_Int
      then Return (allErrs st @
             [Invalid (Child (Index fldPath i) ''maxReplicas'') (BadIntOrString (Some mr))
                ''the maxReplicas type must be Int for StatefulSet''])
      else
        (case GetValueFromIntOrPercent env mr 100 True of
           (subsetMaxReplicas, err) \<Rightarrow>
             if err \<noteq> None \<or> subsetMaxReplicas <s 0
             then Return (allErrs st @
                    [Invalid (Child (Index fldPath i) ''maxReplicas'') (BadIntOrString (Some mr))
                       ''maxReplicas is not valid for subset''])
             else if IntOrString.Type mr = intstr_String
             then
               (if 100 <s maxReplicasSum st + subsetMaxReplicas
                then Return (allErrs st @
                       [Invalid (Child (Index fldPath i) ''maxReplicas'') (BadIntOrString (Some mr))
                          ''the sum of all subset's maxReplicas exceeds 100% is no permitted''])
                else Continue (st\<lparr>maxReplicasSum := maxReplicasSum st + subsetMaxReplicas\<rparr>))
             else Continue st))"

text \<open>Lines 337 to 363: the first replica cap fixes the type; another type returns.\<close>

definition validateSubsetMaxReplicas ::
  "Env \<Rightarrow> WorkloadSpread \<Rightarrow> Path \<Rightarrow> nat \<Rightarrow> WorkloadSpreadSubset \<Rightarrow> LoopState \<Rightarrow> LoopOutcome" where
  "validateSubsetMaxReplicas env ws fldPath i subset' st =
     (case MaxReplicas subset' of
        None \<Rightarrow> Continue st
      | Some mr \<Rightarrow>
          (case firstMaxReplicasType st of
             None \<Rightarrow>
               checkMaxReplicas env ws fldPath i mr
                 (st\<lparr>firstMaxReplicasType := Some (IntOrString.Type mr)\<rparr>)
           | Some t \<Rightarrow>
               if IntOrString.Type mr \<noteq> t
               then Return (allErrs st @
                      [Invalid (Child (Index fldPath i) ''maxReplicas'') (BadIntOrString (Some mr))
                         ''the maxReplicas type of all subsets must be the same''])
               else checkMaxReplicas env ws fldPath i mr st))"

text \<open>
  Lines 246 to 332: the checks of one subset that only append errors (name, node selector
  terms, tolerations, patch), with the new set of names.
\<close>

definition validateSubsetFields ::
  "Env \<Rightarrow> ClientObject option \<Rightarrow> Path \<Rightarrow> nat \<Rightarrow> WorkloadSpreadSubset \<Rightarrow> string set
     \<Rightarrow> panic + ErrorList \<times> string set" where
  "validateSubsetFields env workloadTemplate fldPath i subset' names =
     (case validateSubsetName fldPath i (WorkloadSpreadSubset.Name subset') names of
        (nameErrs, names') \<Rightarrow>
          (case validateSubsetPatch env workloadTemplate fldPath i subset' of
             Inl p \<Rightarrow> Inl p
           | Inr patchErrs \<Rightarrow>
               Inr (nameErrs
                    @ validateRequiredNodeSelectorTerm env fldPath i subset'
                    @ validatePreferredNodeSelectorTerms env fldPath i subset'
                    @ validateTolerations env fldPath i subset'
                    @ patchErrs, names')))"

text \<open>The loop body, lines 245 to 364.\<close>

definition validateSubset ::
  "Env \<Rightarrow> WorkloadSpread \<Rightarrow> ClientObject option \<Rightarrow> Path \<Rightarrow> nat \<Rightarrow> WorkloadSpreadSubset
     \<Rightarrow> LoopState \<Rightarrow> LoopOutcome" where
  "validateSubset env ws workloadTemplate fldPath i subset' st =
     (case validateSubsetFields env workloadTemplate fldPath i subset' (subSetNames st) of
        Inl p \<Rightarrow> Panicked p
      | Inr (errs, names') \<Rightarrow>
          validateSubsetMaxReplicas env ws fldPath i subset'
            (st\<lparr>allErrs := allErrs st @ errs, subSetNames := names'\<rparr>))"

fun subsetsLoop ::
  "Env \<Rightarrow> WorkloadSpread \<Rightarrow> ClientObject option \<Rightarrow> Path \<Rightarrow> nat \<Rightarrow> WorkloadSpreadSubset list
     \<Rightarrow> LoopState \<Rightarrow> LoopOutcome" where
  "subsetsLoop env ws workloadTemplate fldPath i [] st = Continue st"
| "subsetsLoop env ws workloadTemplate fldPath i (subset' # subsets) st =
     (case validateSubset env ws workloadTemplate fldPath i subset' st of
        Continue st' \<Rightarrow> subsetsLoop env ws workloadTemplate fldPath (Suc i) subsets st'
      | Return errs \<Rightarrow> Return errs
      | Panicked p \<Rightarrow> Panicked p)"

definition initialLoopState :: LoopState where
  "initialLoopState =
     \<lparr>allErrs = [], subSetNames = {}, maxReplicasSum = 0, firstMaxReplicasType = None\<rparr>"

text \<open>Lines 366 to 368: the check after the loop.\<close>

definition percentSumErrs :: "Path \<Rightarrow> WorkloadSpreadSubset list \<Rightarrow> LoopState \<Rightarrow> ErrorList" where
  "percentSumErrs fldPath subsets st =
     (if firstMaxReplicasType st = Some intstr_String \<and> maxReplicasSum st <s 100
         \<and> MaxReplicas (subsets ! (length subsets - 1)) \<noteq> None
      then [Invalid (Child (Index fldPath 0) ''maxReplicas'')
              (BadIntOrString (MaxReplicas (subsets ! 0)))
              ''maxReplicas sum of all subsets must equal 100% when type is specified as percent'']
      else [])"

definition validateWorkloadSpreadSubsets ::
  "Env \<Rightarrow> WorkloadSpread \<Rightarrow> WorkloadSpreadSubset list \<Rightarrow> ClientObject option \<Rightarrow> Path
     \<Rightarrow> panic + ErrorList" where
  "validateWorkloadSpreadSubsets env ws subsets workloadTemplate fldPath =
     (if length subsets = 0
      then Inr [Required fldPath ''subsets number must >= 1 in WorkloadSpread'']
      else
        (case subsetsLoop env ws workloadTemplate fldPath 0 subsets initialLoopState of
           Panicked p \<Rightarrow> Inl p
         | Return errs \<Rightarrow> Inr errs
         | Continue st \<Rightarrow> Inr (allErrs st @ percentSumErrs fldPath subsets st)))"

subsection \<open>\<^verbatim>\<open>validateWorkloadSpreadSpec\<close>\<close>

text \<open>
  Lines 113 to 161, one case of the switch on the kind: the group check, then the fetch of
  the workload. A failed fetch leaves \<^verbatim>\<open>workloadTemplate\<close> nil and appends nothing.
\<close>

definition fetchWorkload :: "Env \<Rightarrow> GoType \<Rightarrow> TargetReference \<Rightarrow> string \<Rightarrow> ClientObject option" where
  "fetchWorkload env t ref namespace =
     (case Client_Get env t (TargetReference.Name ref) namespace of
        Inl getErr \<Rightarrow> None
      | Inr set' \<Rightarrow> Some (ClientObject t set'))"

definition validateKnownKind ::
  "Env \<Rightarrow> WorkloadSpread \<Rightarrow> Path \<Rightarrow> TargetReference \<Rightarrow> string \<Rightarrow> string list \<Rightarrow> GoType \<Rightarrow> string
     \<Rightarrow> ErrorList \<times> ClientObject option" where
  "validateKnownKind env obj fldPath ref expectedKind expectedGroups t detail =
     (case verifyGroupKind env ref expectedKind expectedGroups of
        (ok, err) \<Rightarrow>
          if \<not> ok \<or> err \<noteq> None
          then ([Invalid (Child fldPath ''targetRef'') (BadTargetReference (Some ref)) detail], None)
          else ([], fetchWorkload env t ref (Namespace (ObjectMeta obj))))"

text \<open>Lines 163 to 177: any other kind is looked up in the configured allow-list.\<close>

definition validateCustomKind ::
  "Env \<Rightarrow> Path \<Rightarrow> TargetReference \<Rightarrow> ErrorList" where
  "validateCustomKind env fldPath ref =
     (case GetWSWatchCustomWorkloadWhiteList env of
        (whiteList, Some err) \<Rightarrow> [InternalError (Child fldPath ''targetRef'') err]
      | (whiteList, None) \<Rightarrow>
          if list_ex (\<lambda>wl. fst (verifyGroupKind env ref (CustomWorkload.Kind wl)
                                   [CustomWorkload.Group wl])) whiteList
          then []
          else [Invalid (Child fldPath ''targetRef'') (BadTargetReference (Some ref))
                  ''TargetReference's GroupKind is not permitted.''])"

text \<open>Lines 104 to 180: the errors of the target reference and the workload fetched.\<close>

definition validateTargetRef ::
  "Env \<Rightarrow> WorkloadSpread \<Rightarrow> Path \<Rightarrow> ErrorList \<times> ClientObject option" where
  "validateTargetRef env obj fldPath =
     (case TargetReference (Spec obj) of
        None \<Rightarrow>
          ([Required (Child fldPath ''targetRef'') ''no targetRef defined in WorkloadSpread''], None)
      | Some ref \<Rightarrow>
          if APIVersion ref = [] \<or> TargetReference.Name ref = [] \<or> TargetReference.Kind ref = []
          then ([Invalid (Child fldPath ''targetRef'') (BadTargetReference (Some ref))
                   ''empty TargetReference is not valid for WorkloadSpread.''], None)
          else if TargetReference.Kind ref = GroupVersionKind.Kind controllerKruiseKindCS then
            validateKnownKind env obj fldPath ref (GroupVersionKind.Kind controllerKruiseKindCS)
              [GroupVersionKind.Group controllerKruiseKindCS] appsv1alpha1_CloneSet
              ''TargetReference is not valid for CloneSet.''
          else if TargetReference.Kind ref = GroupVersionKind.Kind controllerKindDep then
            validateKnownKind env obj fldPath ref (GroupVersionKind.Kind controllerKindDep)
              [GroupVersionKind.Group controllerKindDep] appsv1_Deployment
              ''TargetReference is not valid for Deployment.''
          else if TargetReference.Kind ref = GroupVersionKind.Kind controllerKindRS then
            validateKnownKind env obj fldPath ref (GroupVersionKind.Kind controllerKindRS)
              [GroupVersionKind.Group controllerKindRS] appsv1_ReplicaSet
              ''TargetReference is not valid for ReplicaSet.''
          else if TargetReference.Kind ref = GroupVersionKind.Kind controllerKindJob then
            validateKnownKind env obj fldPath ref (GroupVersionKind.Kind controllerKindJob)
              [GroupVersionKind.Group controllerKindJob] batchv1_Job
              ''TargetReference is not valid for Job.''
          else if TargetReference.Kind ref = GroupVersionKind.Kind controllerKindSts then
            validateKnownKind env obj fldPath ref (GroupVersionKind.Kind controllerKindSts)
              [GroupVersionKind.Group controllerKindSts,
               GroupVersionKind.Group controllerKruiseKindAlphaSts,
               GroupVersionKind.Group controllerKruiseKindBetaSts] appsv1_StatefulSet
              ''TargetReference is not valid for StatefulSet.''
          else (validateCustomKind env fldPath ref, None))"

text \<open>Lines 186 to 191: the type of the schedule strategy.\<close>

definition validateScheduleStrategyType :: "WorkloadSpreadSpec \<Rightarrow> Path \<Rightarrow> ErrorList" where
  "validateScheduleStrategyType spec fldPath =
     (let t = WorkloadSpreadScheduleStrategy.Type (ScheduleStrategy spec) in
      if t \<noteq> [] \<and> t \<noteq> FixedWorkloadSpreadScheduleStrategyType
         \<and> t \<noteq> AdaptiveWorkloadSpreadScheduleStrategyType
      then [Invalid (Child (Child fldPath ''scheduleStrategy'') ''type'') (BadString t)
              ''ScheduleStrategy's type is not valid'']
      else [])"

text \<open>
  Go's \<^verbatim>\<open>/\<close> on \<^verbatim>\<open>int32\<close> truncates towards zero and panics on a zero divisor.
\<close>

definition int32_quo :: "int32 \<Rightarrow> int32 \<Rightarrow> panic + int32" where
  "int32_quo a b = (if b = 0 then Inl IntegerDivideByZero else Inr (word_of_int (sint a sdiv sint b)))"

text \<open>
  Lines 204 to 210. \<^verbatim>\<open>len(spec.Subsets)-1\<close> is a Go \<^verbatim>\<open>int\<close>; the conversion to \<^verbatim>\<open>int32\<close>
  keeps its low 32 bits.
\<close>

definition allowedMaxSeconds :: "WorkloadSpreadSubset list \<Rightarrow> panic + int32" where
  "allowedMaxSeconds subsets =
     (if 1 < length subsets
      then int32_quo (word_of_int (MaxScheduledFailedDuration_Seconds - 5))
             (word_of_int (int (length subsets) - 1))
      else Inr (word_of_int (2 ^ 31 - 1)))"

text \<open>What \<^verbatim>\<open>%d\<close> prints.\<close>

fun natToDecimal :: "nat \<Rightarrow> string" where
  "natToDecimal n =
     (if n < 10 then [''0123456789'' ! n]
      else natToDecimal (n div 10) @ [''0123456789'' ! (n mod 10)])"

declare natToDecimal.simps [simp del]

definition Itoa :: "int \<Rightarrow> string" where
  "Itoa k = (if k < 0 then ''-'' @ natToDecimal (nat (- k)) else natToDecimal (nat k))"

text \<open>Lines 193 to 216: the checks of an adaptive strategy.\<close>

definition adaptiveTypeErrs ::
  "WorkloadSpreadSpec \<Rightarrow> AdaptiveWorkloadSpreadStrategy \<Rightarrow> Path \<Rightarrow> ErrorList" where
  "adaptiveTypeErrs spec adaptive fldPath =
     (if WorkloadSpreadScheduleStrategy.Type (ScheduleStrategy spec)
           \<noteq> AdaptiveWorkloadSpreadScheduleStrategyType
      then [Invalid (Child (Child fldPath ''scheduleStrategy'') ''type'')
              (BadInt32 (RescheduleCriticalSeconds adaptive))
              ''the scheduleStrategy's type must be adaptive when using adaptive scheduleStrategy'']
      else [])"

definition adaptiveLastSubsetErrs ::
  "WorkloadSpreadSpec \<Rightarrow> AdaptiveWorkloadSpreadStrategy \<Rightarrow> Path \<Rightarrow> ErrorList" where
  "adaptiveLastSubsetErrs spec adaptive fldPath =
     (if 1 < length (Subsets spec)
         \<and> MaxReplicas (Subsets spec ! (length (Subsets spec) - 1)) \<noteq> None
      then [Invalid (Child (Child fldPath ''scheduleStrategy'') ''adaptive'')
              (BadInt32 (RescheduleCriticalSeconds adaptive))
              ''the last subset's maxReplicas must be not specified when using adaptive scheduleStrategy'']
      else [])"

definition rescheduleCriticalSecondsErrs ::
  "AdaptiveWorkloadSpreadStrategy \<Rightarrow> int32 \<Rightarrow> Path \<Rightarrow> ErrorList" where
  "rescheduleCriticalSecondsErrs adaptive allowed fldPath =
     (case RescheduleCriticalSeconds adaptive of
        None \<Rightarrow> []
      | Some v \<Rightarrow>
          if v <s 0 \<or> allowed <s v
          then [Invalid
                  (Child (Child (Child fldPath ''scheduleStrategy'') ''adaptive'')
                     ''rescheduleCriticalSeconds'')
                  (BadInt32 (Some v))
                  (''rescheduleCriticalSeconds < 0 or rescheduleCriticalSeconds > ''
                     @ Itoa (sint allowed) @ '' is not permitted'')]
          else [])"

definition validateAdaptive :: "WorkloadSpreadSpec \<Rightarrow> Path \<Rightarrow> panic + ErrorList" where
  "validateAdaptive spec fldPath =
     (case Adaptive (ScheduleStrategy spec) of
        None \<Rightarrow> Inr []
      | Some adaptive \<Rightarrow>
          (case allowedMaxSeconds (Subsets spec) of
             Inl p \<Rightarrow> Inl p
           | Inr allowed \<Rightarrow>
               Inr (adaptiveTypeErrs spec adaptive fldPath
                    @ adaptiveLastSubsetErrs spec adaptive fldPath
                    @ rescheduleCriticalSecondsErrs adaptive allowed fldPath)))"

text \<open>Lines 218 to 223: the target filter.\<close>

definition validateTargetFilter :: "Env \<Rightarrow> WorkloadSpreadSpec \<Rightarrow> Path \<Rightarrow> ErrorList" where
  "validateTargetFilter env spec fldPath =
     (case TargetFilter spec of
        None \<Rightarrow> []
      | Some tf \<Rightarrow>
          (case LabelSelectorAsSelector env (Selector tf) of
             Some err \<Rightarrow> [Invalid (Child fldPath ''targetFilter'') (BadTargetFilter (Some tf)) err]
           | None \<Rightarrow> []))"

definition validateWorkloadSpreadSpec :: "Env \<Rightarrow> WorkloadSpread \<Rightarrow> Path \<Rightarrow> panic + ErrorList" where
  "validateWorkloadSpreadSpec env obj fldPath =
     (case validateTargetRef env obj fldPath of
        (targetRefErrs, workloadTemplate) \<Rightarrow>
          (case validateWorkloadSpreadSubsets env obj (Subsets (Spec obj)) workloadTemplate
                  (Child fldPath ''subsets'') of
             Inl p \<Rightarrow> Inl p
           | Inr subsetErrs \<Rightarrow>
               (case validateAdaptive (Spec obj) fldPath of
                  Inl p \<Rightarrow> Inl p
                | Inr adaptiveErrs \<Rightarrow>
                    Inr (targetRefErrs @ subsetErrs
                         @ validateScheduleStrategyType (Spec obj) fldPath
                         @ adaptiveErrs
                         @ validateTargetFilter env (Spec obj) fldPath))))"

subsection \<open>\<^verbatim>\<open>validatingWorkloadSpreadFn\<close>\<close>

definition validatingWorkloadSpreadFn :: "Env \<Rightarrow> WorkloadSpread \<Rightarrow> panic + ErrorList" where
  "validatingWorkloadSpreadFn env obj =
     (case validateWorkloadSpreadSpec env obj (NewPath ''spec'') of
        Inl p \<Rightarrow> Inl p
      | Inr specErrs \<Rightarrow>
          Inr (specErrs @
               (case Client_List env (Namespace (ObjectMeta obj)) of
                  Inl err \<Rightarrow>
                    [InternalError (NewPath [])
                       (''query other WorkloadSpread failed, err: '' @ err)]
                | Inr items \<Rightarrow> validateWorkloadSpreadConflict env obj items (NewPath ''spec''))))"

section \<open>Notions of the specification\<close>

text \<open>
  Two specifications conflict when the sibling does not bear the candidate's name, both
  have a target reference, and the references agree in parsed group, kind and name.
\<close>

definition conflictsWith :: "Env \<Rightarrow> WorkloadSpread \<Rightarrow> WorkloadSpread \<Rightarrow> bool" where
  "conflictsWith env ws other =
     (ObjectMeta.Name (ObjectMeta other) \<noteq> ObjectMeta.Name (ObjectMeta ws)
      \<and> (case (TargetReference (Spec ws), TargetReference (Spec other)) of
           (Some ref1, Some ref2) \<Rightarrow>
             GroupVersion.Group (fst (ParseGroupVersion env (APIVersion ref1)))
               = GroupVersion.Group (fst (ParseGroupVersion env (APIVersion ref2)))
             \<and> TargetReference.Kind ref1 = TargetReference.Kind ref2
             \<and> TargetReference.Name ref1 = TargetReference.Name ref2
         | _ \<Rightarrow> False))"

text \<open>
  The kinds the resolver recognises by name, with the groups it accepts for each and the Go
  type it fetches.
\<close>

definition recognizedKind :: "string \<Rightarrow> (string list \<times> GoType) option" where
  "recognizedKind kind =
     (if kind = ''CloneSet'' then Some ([''apps.kruise.io''], appsv1alpha1_CloneSet)
      else if kind = ''Deployment'' then Some ([''apps''], appsv1_Deployment)
      else if kind = ''ReplicaSet'' then Some ([''apps''], appsv1_ReplicaSet)
      else if kind = ''Job'' then Some ([''batch''], batchv1_Job)
      else if kind = ''StatefulSet''
        then Some ([''apps'', ''apps.kruise.io'', ''apps.kruise.io''], appsv1_StatefulSet)
      else None)"

text \<open>
  The bound of the specification on \<^verbatim>\<open>RescheduleCriticalSeconds\<close>:
  \<open>floor ((300 - 5) / (subsetCount - 1))\<close> with more than one subset, else the largest
  \<^verbatim>\<open>int32\<close>.
\<close>

definition allowedMax :: "nat \<Rightarrow> int" where
  "allowedMax subsetCount =
     (if 1 < subsetCount then (300 - 5) div (int subsetCount - 1) else 2147483647)"

text \<open>
  The type fixed by the first replica cap that is set, the value a replica cap resolves to
  against the base 100, and the sum of the resolved caps, in Go's \<^verbatim>\<open>int\<close>.
\<close>

fun firstNonNilMaxReplicas :: "WorkloadSpreadSubset list \<Rightarrow> IntOrString option" where
  "firstNonNilMaxReplicas [] = None"
| "firstNonNilMaxReplicas (s # ss) =
     (case MaxReplicas s of Some mr \<Rightarrow> Some mr | None \<Rightarrow> firstNonNilMaxReplicas ss)"

definition fixedType :: "WorkloadSpreadSubset list \<Rightarrow> intstr_Type option" where
  "fixedType subsets = map_option IntOrString.Type (firstNonNilMaxReplicas subsets)"

definition resolve :: "Env \<Rightarrow> IntOrString \<Rightarrow> goint" where
  "resolve env mr = fst (GetValueFromIntOrPercent env mr 100 True)"

definition percentSum :: "Env \<Rightarrow> WorkloadSpreadSubset list \<Rightarrow> goint" where
  "percentSum env subsets = sum_list (map (resolve env) (List.map_filter MaxReplicas subsets))"

text \<open>Every replica cap that is set is a percentage.\<close>

definition percentTyped :: "WorkloadSpreadSubset list \<Rightarrow> bool" where
  "percentTyped subsets =
     list_all (\<lambda>s. case MaxReplicas s of None \<Rightarrow> True
                    | Some mr \<Rightarrow> IntOrString.Type mr = intstr_String) subsets"

text \<open>The target is of the kind StatefulSet.\<close>

definition targetIsStatefulSet :: "WorkloadSpread \<Rightarrow> bool" where
  "targetIsStatefulSet ws =
     (case TargetReference (Spec ws) of
        None \<Rightarrow> False
      | Some ref \<Rightarrow> TargetReference.Kind ref = ''StatefulSet'')"

text \<open>
  The errors of the checks that only append (name, node selector terms, tolerations,
  patch) for the subsets from index \<open>i\<close> on, in order, with the set of names after them.
  The list ends at a subset whose patch simulation panics.
\<close>

fun subsetsFields ::
  "Env \<Rightarrow> ClientObject option \<Rightarrow> Path \<Rightarrow> nat \<Rightarrow> WorkloadSpreadSubset list \<Rightarrow> string set
     \<Rightarrow> ErrorList \<times> string set" where
  "subsetsFields env workloadTemplate fldPath i [] names = ([], names)"
| "subsetsFields env workloadTemplate fldPath i (s # ss) names =
     (case validateSubsetFields env workloadTemplate fldPath i s names of
        Inl p \<Rightarrow> ([], names)
      | Inr (errs, names') \<Rightarrow>
          (case subsetsFields env workloadTemplate fldPath (Suc i) ss names' of
             (errs', names'') \<Rightarrow> (errs @ errs', names'')))"

section \<open>A concrete environment and concrete objects\<close>

text \<open>
  The environment the examples run in behaves as the libraries do on the inputs used:
  \<^verbatim>\<open>schema.ParseGroupVersion\<close> splits an API version at its slash; the strategic merge
  rejects a patch that is not a JSON object with \<^verbatim>\<open>invalid JSON document\<close> and returns no
  bytes with the error; \<^verbatim>\<open>json.Unmarshal\<close> rejects empty input with
  \<^verbatim>\<open>unexpected end of JSON input\<close>; \<^verbatim>\<open>intstr.GetValueFromIntOrPercent\<close> returns an integer as
  it is and reads a percentage as its number, scaled by the total over 100 and rounded up.
  The conversions succeed and the structural validators report nothing.
\<close>

definition exampleParseGroupVersion :: "string \<Rightarrow> GroupVersion \<times> error" where
  "exampleParseGroupVersion gv =
     (if gv = [] \<or> gv = ''/'' then (\<lparr>GroupVersion.Group = [], Version = []\<rparr>, None)
      else if count_list gv (CHR ''/'') = 0 then (\<lparr>GroupVersion.Group = [], Version = gv\<rparr>, None)
      else if count_list gv (CHR ''/'') = 1 then
        (\<lparr>GroupVersion.Group = takeWhile (\<lambda>c. c \<noteq> CHR ''/'') gv,
          Version = tl (dropWhile (\<lambda>c. c \<noteq> CHR ''/'') gv)\<rparr>, None)
      else (\<lparr>GroupVersion.Group = [], Version = []\<rparr>,
            Some (''unexpected GroupVersion string: '' @ gv)))"

definition exampleDigit :: "char \<Rightarrow> nat option" where
  "exampleDigit c =
     (if c \<in> set ''0123456789''
      then Some (length (takeWhile (\<lambda>d. d \<noteq> c) ''0123456789''))
      else None)"

fun exampleAtoi :: "nat \<Rightarrow> string \<Rightarrow> nat option" where
  "exampleAtoi acc [] = Some acc"
| "exampleAtoi acc (c # cs) =
     (case exampleDigit c of None \<Rightarrow> None | Some d \<Rightarrow> exampleAtoi (10 * acc + d) cs)"

definition exampleGetValueFromIntOrPercent :: "IntOrString \<Rightarrow> goint \<Rightarrow> bool \<Rightarrow> goint \<times> error" where
  "exampleGetValueFromIntOrPercent intOrPercent total' roundUp =
     (case IntOrString.Type intOrPercent of
        intstr_Int \<Rightarrow> (scast (IntVal intOrPercent), None)
      | intstr_String \<Rightarrow>
          (let s = filter (\<lambda>c. c \<noteq> CHR ''%'') (StrVal intOrPercent) in
           case (if s = [] then None else exampleAtoi 0 s) of
             None \<Rightarrow> (0, Some (''invalid value for IntOrString: invalid value '' @ StrVal intOrPercent))
           | Some v \<Rightarrow>
               (word_of_nat (if roundUp then (v * unat total' + 99) div 100
                             else (v * unat total') div 100), None)))"

definition exampleStrategicMergePatch :: "string \<Rightarrow> string \<Rightarrow> string \<times> error" where
  "exampleStrategicMergePatch original patch =
     (if patch \<noteq> [] \<and> hd patch = CHR ''{'' \<and> last patch = CHR ''}''
      then (original @ patch, None)
      else ([], Some ''invalid JSON document''))"

definition exampleUnmarshal :: "string \<Rightarrow> v1_Pod \<times> error" where
  "exampleUnmarshal bytes =
     (if bytes = [] then (v1_Pod [], Some ''unexpected end of JSON input'')
      else (v1_Pod bytes, None))"

definition exampleEnv :: Env where
  "exampleEnv =
     \<lparr>ParseGroupVersion = exampleParseGroupVersion,
      Client_Get = (\<lambda>t name namespace. Inl ''not found''),
      Client_List = (\<lambda>namespace. Inr []),
      GetWSWatchCustomWorkloadWhiteList = ([], None),
      Convert_v1_NodeSelectorTerm_To_core_NodeSelectorTerm =
        (\<lambda>term. case term of v1_NodeSelectorTerm x \<Rightarrow> (core_NodeSelectorTerm x, None)),
      ValidateNodeSelectorTerm = (\<lambda>term allowInvalid fldPath. []),
      Convert_v1_PreferredSchedulingTerm_To_core_PreferredSchedulingTerm =
        (\<lambda>term. case term of v1_PreferredSchedulingTerm x \<Rightarrow> (core_PreferredSchedulingTerm x, None)),
      ValidatePreferredSchedulingTerms = (\<lambda>terms fldPath. []),
      Convert_v1_Toleration_To_core_Toleration =
        (\<lambda>toleration. case toleration of v1_Toleration x \<Rightarrow> (core_Toleration x, None)),
      ValidateTolerations = (\<lambda>tolerations fldPath. []),
      json_Marshal = OtherFields,
      StrategicMergePatch = exampleStrategicMergePatch,
      json_Unmarshal = exampleUnmarshal,
      ConvertPod = (\<lambda>pod. case pod of v1_Pod x \<Rightarrow> (Some (core_Pod x), None)),
      ValidatePodSpec = (\<lambda>pod fldPath. []),
      GetValueFromIntOrPercent = exampleGetValueFromIntOrPercent,
      LabelSelectorAsSelector = (\<lambda>selector. None),
      ValidateObjectMetaUpdate = (\<lambda>new old fldPath. [])\<rparr>"

definition exampleSubset :: "string \<Rightarrow> IntOrString option \<Rightarrow> WorkloadSpreadSubset" where
  "exampleSubset name maxReplicas =
     \<lparr>WorkloadSpreadSubset.Name = name, RequiredNodeSelectorTerm = None,
      PreferredNodeSelectorTerms = None, Tolerations = None, MaxReplicas = maxReplicas,
      Patch = \<lparr>Raw = None\<rparr>\<rparr>"

definition FromInt :: "int32 \<Rightarrow> IntOrString" where
  "FromInt val = \<lparr>IntOrString.Type = intstr_Int, IntVal = val, StrVal = []\<rparr>"

definition FromString :: "string \<Rightarrow> IntOrString" where
  "FromString val = \<lparr>IntOrString.Type = intstr_String, IntVal = 0, StrVal = val\<rparr>"

definition exampleRef :: "string \<Rightarrow> string \<Rightarrow> string \<Rightarrow> TargetReference" where
  "exampleRef apiVersion kind name =
     \<lparr>APIVersion = apiVersion, TargetReference.Kind = kind, TargetReference.Name = name\<rparr>"

definition exampleWorkloadSpread ::
  "string \<Rightarrow> TargetReference option \<Rightarrow> WorkloadSpreadSubset list
     \<Rightarrow> WorkloadSpreadScheduleStrategy \<Rightarrow> WorkloadSpread" where
  "exampleWorkloadSpread name ref subsets strategy =
     \<lparr>ObjectMeta = \<lparr>ObjectMeta.Name = name, Namespace = ''default''\<rparr>,
      Spec = \<lparr>TargetReference = ref, TargetFilter = None, Subsets = subsets,
              ScheduleStrategy = strategy\<rparr>\<rparr>"

definition noStrategy :: WorkloadSpreadScheduleStrategy where
  "noStrategy = \<lparr>WorkloadSpreadScheduleStrategy.Type = [], Adaptive = None\<rparr>"

text \<open>
  An adaptive strategy; a stored Deployment \<^verbatim>\<open>web\<close> in the namespace \<^verbatim>\<open>default\<close> and the
  environment whose client finds it; a subset with a patch.
\<close>

definition adaptiveStrategy :: "string \<Rightarrow> int32 option \<Rightarrow> WorkloadSpreadScheduleStrategy" where
  "adaptiveStrategy t seconds =
     \<lparr>WorkloadSpreadScheduleStrategy.Type = t,
      Adaptive = Some \<lparr>DisableSimulationSchedule = False, RescheduleCriticalSeconds = seconds\<rparr>\<rparr>"

definition exampleDeployment :: Workload where
  "exampleDeployment =
     \<lparr>TypeMeta = controllerKindDep, Template = \<lparr>Volumes = [], OtherFields = ''{}''\<rparr>,
      VolumeClaimTemplates = []\<rparr>"

definition exampleEnvWithDeployment :: Env where
  "exampleEnvWithDeployment =
     exampleEnv\<lparr>Client_Get :=
       (\<lambda>t name namespace.
          if t = appsv1_Deployment \<and> name = ''web'' \<and> namespace = ''default''
          then Inr exampleDeployment else Inl ''not found'')\<rparr>"

definition patchedSubset :: "string \<Rightarrow> string \<Rightarrow> WorkloadSpreadSubset" where
  "patchedSubset name raw = (exampleSubset name None)\<lparr>Patch := \<lparr>Raw = Some raw\<rparr>\<rparr>"

text \<open>
  Specifications that target the Deployment \<^verbatim>\<open>web\<close> and the StatefulSet \<^verbatim>\<open>db\<close>, the path of
  the subsets, and subsets with a percentage and with an integer as replica cap.
\<close>

definition deploymentSpread :: "WorkloadSpreadSubset list \<Rightarrow> WorkloadSpread" where
  "deploymentSpread subsets =
     exampleWorkloadSpread ''ws'' (Some (exampleRef ''apps/v1'' ''Deployment'' ''web'')) subsets noStrategy"

definition statefulSetSpread :: "WorkloadSpreadSubset list \<Rightarrow> WorkloadSpread" where
  "statefulSetSpread subsets =
     exampleWorkloadSpread ''ws'' (Some (exampleRef ''apps/v1'' ''StatefulSet'' ''db'')) subsets noStrategy"

definition subsetsPath :: Path where
  "subsetsPath = Child (NewPath ''spec'') ''subsets''"

definition percentSubset :: "string \<Rightarrow> string \<Rightarrow> WorkloadSpreadSubset" where
  "percentSubset name percent = exampleSubset name (Some (FromString percent))"

definition intSubset :: "string \<Rightarrow> int32 \<Rightarrow> WorkloadSpreadSubset" where
  "intSubset name n = exampleSubset name (Some (FromInt n))"

section \<open>Properties\<close>

subsection \<open>Unfolding the validator on concrete inputs\<close>

lemmas path_defs = NewPath_def Child_def Index_def

lemmas subset_defs =
  validateWorkloadSpreadSubsets_def validateSubset_def validateSubsetFields_def
  validateSubsetName_def validateRequiredNodeSelectorTerm_def
  validatePreferredNodeSelectorTerms_def validateTolerations_def validateSubsetPatch_def
  simulatePatch_def podTemplateOf_def withVolumeClaimTemplates_def zeroPodTemplateSpec_def
  validateSubsetMaxReplicas_def checkMaxReplicas_def percentSumErrs_def initialLoopState_def

lemmas spec_defs =
  validateWorkloadSpreadSpec_def validateTargetRef_def validateKnownKind_def
  validateCustomKind_def fetchWorkload_def verifyGroupKind_def
  validateScheduleStrategyType_def validateAdaptive_def adaptiveTypeErrs_def
  adaptiveLastSubsetErrs_def rescheduleCriticalSecondsErrs_def allowedMaxSeconds_def
  int32_quo_def validateTargetFilter_def MaxScheduledFailedDuration_Seconds_def
  FixedWorkloadSpreadScheduleStrategyType_def AdaptiveWorkloadSpreadScheduleStrategyType_def
  Itoa_def natToDecimal.simps

lemmas controllerKinds =
  controllerKruiseKindCS_def controllerKindSts_def controllerKindRS_def controllerKindDep_def
  controllerKindJob_def controllerKruiseKindBetaSts_def controllerKruiseKindAlphaSts_def WithKind_def

lemmas example_defs =
  exampleEnv_def exampleParseGroupVersion_def exampleGetValueFromIntOrPercent_def
  exampleDigit_def exampleStrategicMergePatch_def exampleUnmarshal_def exampleSubset_def
  FromInt_def FromString_def exampleRef_def exampleWorkloadSpread_def noStrategy_def
  adaptiveStrategy_def exampleDeployment_def exampleEnvWithDeployment_def patchedSubset_def

lemmas subset_example_defs = deploymentSpread_def statefulSetSpread_def subsetsPath_def percentSubset_def intSubset_def

lemmas notion_defs = fixedType_def percentSum_def resolve_def percentTyped_def targetIsStatefulSet_def

lemmas eval_defs = subset_defs example_defs controllerKinds path_defs subset_example_defs notion_defs word_sless_alt Invalid_def

subsection \<open>Conflict detection\<close>

text \<open>
  Claim C7. For every candidate and every list of siblings, conflict detection skips the
  siblings bearing the candidate's own name and stops at the first sibling whose target
  reference has the candidate's parsed group, kind and name, whatever the versions: the
  result is the single Invalid error on \<^verbatim>\<open>targetRef\<close> naming that sibling, and it is empty
  when there is no such sibling. So at most one conflict error is returned.
\<close>

theorem conflict_first_colliding_sibling:
  "validateWorkloadSpreadConflict env ws others fldPath =
     (case find (conflictsWith env ws) others of
        None \<Rightarrow> []
      | Some other \<Rightarrow>
          [Invalid (Child fldPath ''targetRef'') (BadTargetReference (TargetReference (Spec ws)))
             (''ws.spec.targetRef is in conflict with other WorkloadSpread ''
                @ ObjectMeta.Name (ObjectMeta other))])"
proof (induction others)
  case Nil
  show ?case by simp
next
  case (Cons other others)
  show ?case
  proof (cases "conflictsWith env ws other")
    case True
    then show ?thesis
      by (auto simp: conflictsWith_def Let_def split: option.splits)
  next
    case False
    then show ?thesis
      using Cons.IH
      by (auto simp: conflictsWith_def Let_def split: option.splits)
  qed
qed

text \<open>
  Four siblings: the candidate itself, another target, a sibling on another version of the
  same group, and a second colliding sibling. The error names the third, and only it.
\<close>

theorem conflict_first_colliding_sibling_witness:
  "validateWorkloadSpreadConflict exampleEnv
     (exampleWorkloadSpread ''b'' (Some (exampleRef ''apps/v1'' ''Deployment'' ''web'')) [] noStrategy)
     [exampleWorkloadSpread ''b'' (Some (exampleRef ''apps/v1'' ''Deployment'' ''web'')) [] noStrategy,
      exampleWorkloadSpread ''c'' (Some (exampleRef ''apps/v1'' ''Deployment'' ''api'')) [] noStrategy,
      exampleWorkloadSpread ''a'' (Some (exampleRef ''apps/v1beta1'' ''Deployment'' ''web'')) [] noStrategy,
      exampleWorkloadSpread ''d'' (Some (exampleRef ''apps/v1'' ''Deployment'' ''web'')) [] noStrategy]
     (NewPath ''spec'')
   = [Invalid (Child (NewPath ''spec'') ''targetRef'')
        (BadTargetReference (Some (exampleRef ''apps/v1'' ''Deployment'' ''web'')))
        ''ws.spec.targetRef is in conflict with other WorkloadSpread a'']"
  using conflict_first_colliding_sibling [of exampleEnv
     "exampleWorkloadSpread ''b'' (Some (exampleRef ''apps/v1'' ''Deployment'' ''web'')) [] noStrategy"
     "[exampleWorkloadSpread ''b'' (Some (exampleRef ''apps/v1'' ''Deployment'' ''web'')) [] noStrategy,
      exampleWorkloadSpread ''c'' (Some (exampleRef ''apps/v1'' ''Deployment'' ''api'')) [] noStrategy,
      exampleWorkloadSpread ''a'' (Some (exampleRef ''apps/v1beta1'' ''Deployment'' ''web'')) [] noStrategy,
      exampleWorkloadSpread ''d'' (Some (exampleRef ''apps/v1'' ''Deployment'' ''web'')) [] noStrategy]"
     "NewPath ''spec''"]
  by (simp add: conflictsWith_def exampleWorkloadSpread_def exampleRef_def exampleEnv_def
        exampleParseGroupVersion_def)

subsection \<open>The update guard\<close>

text \<open>
  Claim C8. When the old and the new specification both have a target reference, the update
  check returns the Invalid error on \<^verbatim>\<open>targetRef\<close> exactly when the parsed group, the kind
  or the name differs between them, and nothing when none of the three differs.
\<close>

theorem targetRef_update_both_present:
  "validateWorkloadSpreadTargetRefUpdate env (Some new) (Some old) fldPath =
     (if GroupVersion.Group (fst (ParseGroupVersion env (APIVersion new)))
           \<noteq> GroupVersion.Group (fst (ParseGroupVersion env (APIVersion old)))
         \<or> TargetReference.Kind new \<noteq> TargetReference.Kind old
         \<or> TargetReference.Name new \<noteq> TargetReference.Name old
      then [Invalid (Child fldPath ''targetRef'') (BadTargetReference (Some new))
              ''change TargetReference is not permitted for WorkloadSpread'']
      else [])"
  by (simp add: validateWorkloadSpreadTargetRefUpdate_def Let_def)

text \<open>Renaming the target is rejected; moving it to another version of its group is not.\<close>

theorem targetRef_update_both_present_witness:
  "validateWorkloadSpreadTargetRefUpdate exampleEnv
      (Some (exampleRef ''apps/v1'' ''Deployment'' ''web2''))
      (Some (exampleRef ''apps/v1'' ''Deployment'' ''web'')) (NewPath ''spec'')
    = [Invalid (Child (NewPath ''spec'') ''targetRef'')
         (BadTargetReference (Some (exampleRef ''apps/v1'' ''Deployment'' ''web2'')))
         ''change TargetReference is not permitted for WorkloadSpread'']
   \<and> validateWorkloadSpreadTargetRefUpdate exampleEnv
      (Some (exampleRef ''apps/v1beta1'' ''Deployment'' ''web''))
      (Some (exampleRef ''apps/v1'' ''Deployment'' ''web'')) (NewPath ''spec'') = []"
  using targetRef_update_both_present [of exampleEnv "exampleRef ''apps/v1'' ''Deployment'' ''web2''"
          "exampleRef ''apps/v1'' ''Deployment'' ''web''" "NewPath ''spec''"]
        targetRef_update_both_present [of exampleEnv "exampleRef ''apps/v1beta1'' ''Deployment'' ''web''"
          "exampleRef ''apps/v1'' ''Deployment'' ''web''" "NewPath ''spec''"]
  by (simp add: exampleRef_def exampleEnv_def exampleParseGroupVersion_def)

text \<open>
  Claim C10. When the old or the new target reference is nil, the update check returns the
  empty error list: the guard is engaged only when both references are present.
\<close>

theorem targetRef_update_absent_reference:
  "targetRef = None \<or> oldTargetRef = None \<Longrightarrow>
     validateWorkloadSpreadTargetRefUpdate env targetRef oldTargetRef fldPath = []"
  by (auto simp: validateWorkloadSpreadTargetRefUpdate_def split: option.splits)

text \<open>Adding a target reference, and removing it.\<close>

theorem targetRef_update_absent_reference_witness:
  "validateWorkloadSpreadTargetRefUpdate exampleEnv
      None (Some (exampleRef ''apps/v1'' ''Deployment'' ''web'')) (NewPath ''spec'') = []
   \<and> validateWorkloadSpreadTargetRefUpdate exampleEnv
      (Some (exampleRef ''apps/v1'' ''Deployment'' ''web'')) None (NewPath ''spec'') = []"
  using targetRef_update_absent_reference [of None "Some (exampleRef ''apps/v1'' ''Deployment'' ''web'')"
          exampleEnv "NewPath ''spec''"]
        targetRef_update_absent_reference [of "Some (exampleRef ''apps/v1'' ''Deployment'' ''web'')" None
          exampleEnv "NewPath ''spec''"]
  by simp

subsection \<open>Target resolution\<close>

lemma validateSubsetPatch_no_template:
  "validateSubsetPatch env None fldPath i s = Inr []"
  by (simp add: validateSubsetPatch_def split: option.splits)

text \<open>
  Claim C9. For a target reference of a recognised kind that passes the group check, a failed
  fetch of the named workload (not found, or any other error of the client) adds no error
  and leaves the workload template nil; the patch of a subset is then not simulated.
\<close>

theorem failed_fetch_is_no_error:
  assumes "TargetReference (Spec obj) = Some ref"
    and "APIVersion ref \<noteq> []" and "TargetReference.Name ref \<noteq> []"
    and "recognizedKind (TargetReference.Kind ref) = Some (groups, t)"
    and "verifyGroupKind env ref (TargetReference.Kind ref) groups = (True, None)"
    and "Client_Get env t (TargetReference.Name ref) (Namespace (ObjectMeta obj)) = Inl getErr"
  shows "validateTargetRef env obj fldPath = ([], None)
     \<and> validateSubsetPatch env (snd (validateTargetRef env obj fldPath)) subsetsFldPath i s = Inr []"
proof -
  have "validateTargetRef env obj fldPath = ([], None)"
    using assms
    by (auto simp: validateTargetRef_def validateKnownKind_def fetchWorkload_def
          recognizedKind_def controllerKinds split: if_splits)
  then show ?thesis
    by (simp add: validateSubsetPatch_no_template)
qed

text \<open>
  No workload is stored: the reference to the Deployment \<^verbatim>\<open>web\<close> passes the group check,
  the fetch fails, no error is reported, and the patch of the subset is not simulated.
\<close>

theorem failed_fetch_is_no_error_witness:
  "validateTargetRef exampleEnv
      (exampleWorkloadSpread ''ws'' (Some (exampleRef ''apps/v1'' ''Deployment'' ''web''))
         [patchedSubset ''a'' ''{{''] noStrategy) (NewPath ''spec'') = ([], None)
   \<and> validateSubsetPatch exampleEnv
        (snd (validateTargetRef exampleEnv
           (exampleWorkloadSpread ''ws'' (Some (exampleRef ''apps/v1'' ''Deployment'' ''web''))
              [patchedSubset ''a'' ''{{''] noStrategy) (NewPath ''spec'')))
        (Child (NewPath ''spec'') ''subsets'') 0 (patchedSubset ''a'' ''{{'') = Inr []"
  by (rule failed_fetch_is_no_error
        [where ref = "exampleRef ''apps/v1'' ''Deployment'' ''web''" and groups = "[''apps'']"
           and t = appsv1_Deployment and getErr = "''not found''"])
     (simp_all add: example_defs recognizedKind_def verifyGroupKind_def)

subsection \<open>The adaptive schedule strategy\<close>

lemma validateWorkloadSpreadSpec_adaptive:
  assumes "Adaptive (ScheduleStrategy (Spec obj)) = Some adaptive"
    and "validateWorkloadSpreadSubsets env obj (Subsets (Spec obj))
           (snd (validateTargetRef env obj fldPath)) (Child fldPath ''subsets'') = Inr subsetErrs"
    and "allowedMaxSeconds (Subsets (Spec obj)) = Inr allowed"
  shows "validateWorkloadSpreadSpec env obj fldPath =
           Inr (fst (validateTargetRef env obj fldPath) @ subsetErrs
                @ validateScheduleStrategyType (Spec obj) fldPath
                @ adaptiveTypeErrs (Spec obj) adaptive fldPath
                @ adaptiveLastSubsetErrs (Spec obj) adaptive fldPath
                @ rescheduleCriticalSecondsErrs adaptive allowed fldPath
                @ validateTargetFilter env (Spec obj) fldPath)"
  using assms
  by (cases "validateTargetRef env obj fldPath")
     (simp add: validateWorkloadSpreadSpec_def validateAdaptive_def)

text \<open>
  Claim C5. For a specification with an adaptive configuration whose subset validation
  returns, the errors of the specification contain, after those of the target reference,
  the subsets and the strategy type: the Invalid error on \<^verbatim>\<open>scheduleStrategy.type\<close> exactly
  when the type is not \<^verbatim>\<open>Adaptive\<close>, then the Invalid error on \<^verbatim>\<open>scheduleStrategy.adaptive\<close>
  exactly when there is more than one subset and the last one specifies \<^verbatim>\<open>MaxReplicas\<close>.
\<close>

theorem adaptive_strategy_type_and_last_subset:
  assumes "Adaptive (ScheduleStrategy (Spec obj)) = Some adaptive"
    and "validateWorkloadSpreadSubsets env obj (Subsets (Spec obj))
           (snd (validateTargetRef env obj fldPath)) (Child fldPath ''subsets'') = Inr subsetErrs"
    and "allowedMaxSeconds (Subsets (Spec obj)) = Inr allowed"
  shows "validateWorkloadSpreadSpec env obj fldPath =
           Inr (fst (validateTargetRef env obj fldPath) @ subsetErrs
                @ validateScheduleStrategyType (Spec obj) fldPath
                @ (if WorkloadSpreadScheduleStrategy.Type (ScheduleStrategy (Spec obj)) \<noteq> ''Adaptive''
                   then [Invalid (Child (Child fldPath ''scheduleStrategy'') ''type'')
                           (BadInt32 (RescheduleCriticalSeconds adaptive))
                           ''the scheduleStrategy's type must be adaptive when using adaptive scheduleStrategy'']
                   else [])
                @ (if 1 < length (Subsets (Spec obj)) \<and> MaxReplicas (last (Subsets (Spec obj))) \<noteq> None
                   then [Invalid (Child (Child fldPath ''scheduleStrategy'') ''adaptive'')
                           (BadInt32 (RescheduleCriticalSeconds adaptive))
                           ''the last subset's maxReplicas must be not specified when using adaptive scheduleStrategy'']
                   else [])
                @ rescheduleCriticalSecondsErrs adaptive allowed fldPath
                @ validateTargetFilter env (Spec obj) fldPath)"
proof -
  have "1 < length (Subsets (Spec obj)) \<Longrightarrow>
          Subsets (Spec obj) ! (length (Subsets (Spec obj)) - 1) = last (Subsets (Spec obj))"
    by (cases "Subsets (Spec obj)" rule: rev_cases) (simp_all add: nth_append)
  then show ?thesis
    unfolding validateWorkloadSpreadSpec_adaptive [OF assms]
    by (auto simp: adaptiveTypeErrs_def adaptiveLastSubsetErrs_def
          AdaptiveWorkloadSpreadScheduleStrategyType_def)
qed

text \<open>
  A strategy of type \<^verbatim>\<open>Fixed\<close> with an adaptive configuration, and two subsets of which the
  last has a replica cap: both errors, and no other.
\<close>

theorem adaptive_strategy_type_and_last_subset_witness:
  "validateWorkloadSpreadSpec exampleEnv
      (exampleWorkloadSpread ''ws'' (Some (exampleRef ''apps/v1'' ''Deployment'' ''web''))
         [exampleSubset ''a'' (Some (FromInt 3)), exampleSubset ''b'' (Some (FromInt 5))]
         (adaptiveStrategy ''Fixed'' (Some 30)))
      (NewPath ''spec'')
   = Inr [Invalid (Child (Child (NewPath ''spec'') ''scheduleStrategy'') ''type'') (BadInt32 (Some 30))
            ''the scheduleStrategy's type must be adaptive when using adaptive scheduleStrategy'',
          Invalid (Child (Child (NewPath ''spec'') ''scheduleStrategy'') ''adaptive'') (BadInt32 (Some 30))
            ''the last subset's maxReplicas must be not specified when using adaptive scheduleStrategy'']"
proof -
  let ?ws = "exampleWorkloadSpread ''ws'' (Some (exampleRef ''apps/v1'' ''Deployment'' ''web''))
         [exampleSubset ''a'' (Some (FromInt 3)), exampleSubset ''b'' (Some (FromInt 5))]
         (adaptiveStrategy ''Fixed'' (Some 30))"
  have t: "validateTargetRef exampleEnv ?ws (NewPath ''spec'') = ([], None)"
    by (simp add: spec_defs example_defs controllerKinds)
  have a: "Adaptive (ScheduleStrategy (Spec ?ws))
             = Some \<lparr>DisableSimulationSchedule = False, RescheduleCriticalSeconds = Some 30\<rparr>"
    by (simp add: example_defs)
  have s: "validateWorkloadSpreadSubsets exampleEnv ?ws (Subsets (Spec ?ws))
             (snd (validateTargetRef exampleEnv ?ws (NewPath ''spec'')))
             (Child (NewPath ''spec'') ''subsets'') = Inr []"
    unfolding t by (simp add: subset_defs example_defs controllerKinds word_sless_alt)
  have m: "allowedMaxSeconds (Subsets (Spec ?ws)) = Inr 295"
    by (simp add: spec_defs example_defs signed_divide_int_def)
  show ?thesis
    unfolding adaptive_strategy_type_and_last_subset [OF a s m] t
    by (simp add: spec_defs example_defs word_sless_alt)
qed

lemma allowedMaxSeconds_in_range:
  assumes "length subsets \<le> 2 ^ 31"
  shows "\<exists>allowed. allowedMaxSeconds subsets = Inr allowed \<and> sint allowed = allowedMax (length subsets)"
proof (cases "1 < length subsets")
  case False
  then show ?thesis
    by (simp add: allowedMaxSeconds_def allowedMax_def)
next
  case True
  define d where "d = int (length subsets) - 1"
  have d: "0 < d" "d < 2 ^ 31" using True assms by (auto simp: d_def)
  have sd: "sint (word_of_int d :: int32) = d"
    unfolding sint_sbintrunc' using d by (intro signed_take_bit_int_eq_self) simp_all
  have nz: "(word_of_int d :: int32) \<noteq> 0"
  proof
    assume "(word_of_int d :: int32) = 0"
    then have "sint (word_of_int d :: int32) = 0" by simp
    with sd d show False by simp
  qed
  have q: "(295::int) sdiv d = 295 div d"
    using d by (simp add: signed_divide_int_def sgn_if)
  have lo: "0 \<le> (295::int) div d" using d by (simp add: pos_imp_zdiv_nonneg_iff)
  have hi: "(295::int) div d \<le> 295" using zdiv_mono2 [of 295 1 d] d by simp
  have r: "sint (word_of_int (295 div d) :: int32) = 295 div d"
    unfolding sint_sbintrunc' using lo hi by (intro signed_take_bit_int_eq_self) simp_all
  have s295: "sint (word_of_int 295 :: int32) = 295" by simp
  have "int32_quo (word_of_int 295) (word_of_int d) = Inr (word_of_int (295 div d))"
    unfolding int32_quo_def using nz by (simp only: sd s295 q if_False)
  then have "allowedMaxSeconds subsets = Inr (word_of_int (295 div d))"
    using True by (simp only: allowedMaxSeconds_def MaxScheduledFailedDuration_Seconds_def d_def if_True)
       simp
  moreover have "allowedMax (length subsets) = 295 div d"
    using True by (simp add: allowedMax_def d_def)
  ultimately show ?thesis using r by simp
qed

text \<open>
  Claim C6. For a specification with an adaptive configuration and a set
  \<^verbatim>\<open>RescheduleCriticalSeconds\<close>, with a number of subsets that the \<^verbatim>\<open>int32\<close> conversion of
  the code represents (at most \<open>2 ^ 31\<close>), the Invalid error on
  \<^verbatim>\<open>scheduleStrategy.adaptive.rescheduleCriticalSeconds\<close> is emitted exactly when the value is
  negative or above \<open>allowedMax\<close>, which is \<open>floor (295 / (subsetCount - 1))\<close> with more than
  one subset and the largest \<^verbatim>\<open>int32\<close> otherwise. The value \<open>-1\<close> is negative, so it is
  rejected for every such number of subsets.
\<close>

theorem rescheduleCriticalSeconds_range:
  assumes "Adaptive (ScheduleStrategy (Spec obj)) = Some adaptive"
    and "RescheduleCriticalSeconds adaptive = Some v"
    and "validateWorkloadSpreadSubsets env obj (Subsets (Spec obj))
           (snd (validateTargetRef env obj fldPath)) (Child fldPath ''subsets'') = Inr subsetErrs"
    and "length (Subsets (Spec obj)) \<le> 2 ^ 31"
  shows "validateWorkloadSpreadSpec env obj fldPath =
           Inr (fst (validateTargetRef env obj fldPath) @ subsetErrs
                @ validateScheduleStrategyType (Spec obj) fldPath
                @ adaptiveTypeErrs (Spec obj) adaptive fldPath
                @ adaptiveLastSubsetErrs (Spec obj) adaptive fldPath
                @ (if sint v < 0 \<or> allowedMax (length (Subsets (Spec obj))) < sint v
                   then [Invalid
                           (Child (Child (Child fldPath ''scheduleStrategy'') ''adaptive'')
                              ''rescheduleCriticalSeconds'')
                           (BadInt32 (Some v))
                           (''rescheduleCriticalSeconds < 0 or rescheduleCriticalSeconds > ''
                              @ Itoa (allowedMax (length (Subsets (Spec obj))))
                              @ '' is not permitted'')]
                   else [])
                @ validateTargetFilter env (Spec obj) fldPath)"
proof -
  obtain allowed where a: "allowedMaxSeconds (Subsets (Spec obj)) = Inr allowed"
    and s: "sint allowed = allowedMax (length (Subsets (Spec obj)))"
    using allowedMaxSeconds_in_range [OF assms(4)] by blast
  show ?thesis
    unfolding validateWorkloadSpreadSpec_adaptive [OF assms(1) assms(3) a]
    using assms(2) s
    by (simp add: rescheduleCriticalSecondsErrs_def word_sless_alt)
qed

text \<open>
  With three subsets the bound is \<open>295 div 2 = 147\<close>, and 148 is rejected; with one subset
  the bound is the largest \<^verbatim>\<open>int32\<close>, and \<open>-1\<close> is rejected.
\<close>

theorem rescheduleCriticalSeconds_range_witness:
  "validateWorkloadSpreadSpec exampleEnv
      (exampleWorkloadSpread ''ws'' (Some (exampleRef ''apps/v1'' ''Deployment'' ''web''))
         [exampleSubset ''a'' (Some (FromInt 3)), exampleSubset ''b'' (Some (FromInt 5)),
          exampleSubset ''c'' None]
         (adaptiveStrategy ''Adaptive'' (Some 148)))
      (NewPath ''spec'')
   = Inr [Invalid
            (Child (Child (Child (NewPath ''spec'') ''scheduleStrategy'') ''adaptive'')
               ''rescheduleCriticalSeconds'')
            (BadInt32 (Some 148))
            ''rescheduleCriticalSeconds < 0 or rescheduleCriticalSeconds > 147 is not permitted'']
   \<and> validateWorkloadSpreadSpec exampleEnv
      (exampleWorkloadSpread ''ws'' (Some (exampleRef ''apps/v1'' ''Deployment'' ''web''))
         [exampleSubset ''a'' None] (adaptiveStrategy ''Adaptive'' (Some (- 1))))
      (NewPath ''spec'')
   = Inr [Invalid
            (Child (Child (Child (NewPath ''spec'') ''scheduleStrategy'') ''adaptive'')
               ''rescheduleCriticalSeconds'')
            (BadInt32 (Some (- 1)))
            ''rescheduleCriticalSeconds < 0 or rescheduleCriticalSeconds > 2147483647 is not permitted'']"
proof -
  let ?ws1 = "exampleWorkloadSpread ''ws'' (Some (exampleRef ''apps/v1'' ''Deployment'' ''web''))
         [exampleSubset ''a'' (Some (FromInt 3)), exampleSubset ''b'' (Some (FromInt 5)),
          exampleSubset ''c'' None]
         (adaptiveStrategy ''Adaptive'' (Some 148))"
  let ?ws2 = "exampleWorkloadSpread ''ws'' (Some (exampleRef ''apps/v1'' ''Deployment'' ''web''))
         [exampleSubset ''a'' None] (adaptiveStrategy ''Adaptive'' (Some (- 1)))"
  have t1: "validateTargetRef exampleEnv ?ws1 (NewPath ''spec'') = ([], None)"
    by (simp add: spec_defs example_defs controllerKinds)
  have t2: "validateTargetRef exampleEnv ?ws2 (NewPath ''spec'') = ([], None)"
    by (simp add: spec_defs example_defs controllerKinds)
  have a1: "Adaptive (ScheduleStrategy (Spec ?ws1))
             = Some \<lparr>DisableSimulationSchedule = False, RescheduleCriticalSeconds = Some 148\<rparr>"
    by (simp add: example_defs)
  have a2: "Adaptive (ScheduleStrategy (Spec ?ws2))
             = Some \<lparr>DisableSimulationSchedule = False, RescheduleCriticalSeconds = Some (- 1)\<rparr>"
    by (simp add: example_defs)
  have s1: "validateWorkloadSpreadSubsets exampleEnv ?ws1 (Subsets (Spec ?ws1))
             (snd (validateTargetRef exampleEnv ?ws1 (NewPath ''spec'')))
             (Child (NewPath ''spec'') ''subsets'') = Inr []"
    unfolding t1 by (simp add: subset_defs example_defs controllerKinds word_sless_alt)
  have s2: "validateWorkloadSpreadSubsets exampleEnv ?ws2 (Subsets (Spec ?ws2))
             (snd (validateTargetRef exampleEnv ?ws2 (NewPath ''spec'')))
             (Child (NewPath ''spec'') ''subsets'') = Inr []"
    unfolding t2 by (simp add: subset_defs example_defs controllerKinds word_sless_alt)
  have l1: "length (Subsets (Spec ?ws1)) \<le> 2 ^ 31" by (simp add: example_defs)
  have l2: "length (Subsets (Spec ?ws2)) \<le> 2 ^ 31" by (simp add: example_defs)
  have r1: "RescheduleCriticalSeconds
              \<lparr>DisableSimulationSchedule = False, RescheduleCriticalSeconds = Some 148\<rparr> = Some 148"
    by simp
  have r2: "RescheduleCriticalSeconds
              \<lparr>DisableSimulationSchedule = False, RescheduleCriticalSeconds = Some (- 1)\<rparr> = Some (- 1)"
    by simp
  show ?thesis
    unfolding rescheduleCriticalSeconds_range [OF a1 r1 s1 l1]
              rescheduleCriticalSeconds_range [OF a2 r2 s2 l2] t1 t2
    by (simp add: spec_defs example_defs allowedMax_def)
qed

subsection \<open>Patch simulation\<close>

text \<open>
  Claim C1. The claim is that a patch whose strategic merge fails yields exactly one Invalid
  error on the patch field and nothing beyond it. The code appends that error and goes on:
  the merge returned no bytes, unmarshalling them fails as well, and the empty pod is
  converted and validated. Here the Deployment \<^verbatim>\<open>web\<close> is stored, the patch of the one
  subset is not a JSON object, and the structural validators report nothing: validation of
  the specification returns two Invalid errors on the patch field, the second from the
  unmarshalling.
\<close>

theorem failed_merge_is_followed_by_more_errors:
  "validateWorkloadSpreadSpec exampleEnvWithDeployment
      (exampleWorkloadSpread ''ws'' (Some (exampleRef ''apps/v1'' ''Deployment'' ''web''))
         [patchedSubset ''a'' ''{{''] noStrategy)
      (NewPath ''spec'')
   = Inr [Invalid (Child (Index (Child (NewPath ''spec'') ''subsets'') 0) ''patch'') (BadString ''{{'')
            ''failed to merge patch: invalid JSON document'',
          Invalid (Child (Index (Child (NewPath ''spec'') ''subsets'') 0) ''patch'') (BadString ''{{'')
            ''failed to unmarshal: unexpected end of JSON input'']"
  by (simp add: spec_defs subset_defs example_defs controllerKinds)

subsection \<open>The loop over the subsets\<close>

text \<open>
  What a pass of the loop body that continues does to the state: it appends the errors of
  the field checks, and a replica cap that is set fixes or agrees with the type and, when
  it is a percentage, is added to the sum, which stays at most 100.
\<close>

lemma initialLoopState_simps [simp]:
  "allErrs initialLoopState = []" "subSetNames initialLoopState = {}"
  "maxReplicasSum initialLoopState = 0" "firstMaxReplicasType initialLoopState = None"
  by (simp_all add: initialLoopState_def)

lemma validateSubsetMaxReplicas_Continue:
  assumes "validateSubsetMaxReplicas env ws p i s st = Continue st'"
  shows "allErrs st' = allErrs st \<and> subSetNames st' = subSetNames st
     \<and> (case MaxReplicas s of
          None \<Rightarrow> firstMaxReplicasType st' = firstMaxReplicasType st
                   \<and> maxReplicasSum st' = maxReplicasSum st
        | Some mr \<Rightarrow>
            firstMaxReplicasType st' = Some (IntOrString.Type mr)
            \<and> (firstMaxReplicasType st = None \<or> firstMaxReplicasType st = Some (IntOrString.Type mr))
            \<and> (if IntOrString.Type mr = intstr_String
                then maxReplicasSum st' = maxReplicasSum st + resolve env mr
                     \<and> \<not> 100 <s maxReplicasSum st'
                else maxReplicasSum st' = maxReplicasSum st))"
  using assms
  by (auto simp: validateSubsetMaxReplicas_def checkMaxReplicas_def resolve_def
        split: option.splits if_splits prod.splits)

lemma validateSubset_Continue:
  assumes "validateSubset env ws tmpl p i s st = Continue st'"
  shows "\<exists>errs. validateSubsetFields env tmpl p i s (subSetNames st) = Inr (errs, subSetNames st')
           \<and> allErrs st' = allErrs st @ errs"
    and "case MaxReplicas s of
          None \<Rightarrow> firstMaxReplicasType st' = firstMaxReplicasType st
                   \<and> maxReplicasSum st' = maxReplicasSum st
        | Some mr \<Rightarrow>
            firstMaxReplicasType st' = Some (IntOrString.Type mr)
            \<and> (firstMaxReplicasType st = None \<or> firstMaxReplicasType st = Some (IntOrString.Type mr))
            \<and> (if IntOrString.Type mr = intstr_String
                then maxReplicasSum st' = maxReplicasSum st + resolve env mr
                     \<and> \<not> 100 <s maxReplicasSum st'
                else maxReplicasSum st' = maxReplicasSum st)"
proof -
  obtain errs names' where f: "validateSubsetFields env tmpl p i s (subSetNames st) = Inr (errs, names')"
    and m: "validateSubsetMaxReplicas env ws p i s
              (st\<lparr>allErrs := allErrs st @ errs, subSetNames := names'\<rparr>) = Continue st'"
    using assms by (auto simp: validateSubset_def split: sum.splits prod.splits)
  from validateSubsetMaxReplicas_Continue [OF m]
  show "\<exists>errs. validateSubsetFields env tmpl p i s (subSetNames st) = Inr (errs, subSetNames st')
           \<and> allErrs st' = allErrs st @ errs"
    using f by simp
  from validateSubsetMaxReplicas_Continue [OF m]
  show "case MaxReplicas s of
          None \<Rightarrow> firstMaxReplicasType st' = firstMaxReplicasType st
                   \<and> maxReplicasSum st' = maxReplicasSum st
        | Some mr \<Rightarrow>
            firstMaxReplicasType st' = Some (IntOrString.Type mr)
            \<and> (firstMaxReplicasType st = None \<or> firstMaxReplicasType st = Some (IntOrString.Type mr))
            \<and> (if IntOrString.Type mr = intstr_String
                then maxReplicasSum st' = maxReplicasSum st + resolve env mr
                     \<and> \<not> 100 <s maxReplicasSum st'
                else maxReplicasSum st' = maxReplicasSum st)"
    by (auto split: option.splits if_splits)
qed

lemma subsetsLoop_append:
  "subsetsLoop env ws tmpl p i (xs @ ys) st =
     (case subsetsLoop env ws tmpl p i xs st of
        Continue st' \<Rightarrow> subsetsLoop env ws tmpl p (i + length xs) ys st'
      | Return errs \<Rightarrow> Return errs
      | Panicked pn \<Rightarrow> Panicked pn)"
  by (induction xs arbitrary: i st) (auto split: LoopOutcome.splits)

lemma subsetsLoop_prefix:
  assumes "subsetsLoop env ws tmpl p i (xs @ ys) st = Continue st'"
  obtains st1 where "subsetsLoop env ws tmpl p i xs st = Continue st1"
  using assms unfolding subsetsLoop_append by (auto split: LoopOutcome.splits)

lemma subsetsFields_append:
  "subsetsFields env tmpl p i xs names = (errs, names') \<Longrightarrow>
   subsetsLoop env ws tmpl p i xs st = Continue st' \<Longrightarrow> subSetNames st = names \<Longrightarrow>
   validateSubsetFields env tmpl p (i + length xs) s names' = Inr (errs1, names1) \<Longrightarrow>
   subsetsFields env tmpl p i (xs @ [s]) names = (errs @ errs1, names1)"
proof (induction xs arbitrary: i names st errs)
  case Nil
  then show ?case by simp
next
  case (Cons x xs)
  from Cons.prems(2) obtain st1 where
    b: "validateSubset env ws tmpl p i x st = Continue st1"
    and l: "subsetsLoop env ws tmpl p (Suc i) xs st1 = Continue st'"
    by (auto split: LoopOutcome.splits)
  from validateSubset_Continue(1) [OF b] Cons.prems(3) obtain e1 where
    f: "validateSubsetFields env tmpl p i x names = Inr (e1, subSetNames st1)"
    by auto
  obtain e2 where r: "subsetsFields env tmpl p (Suc i) xs (subSetNames st1) = (e2, names')"
    and e: "errs = e1 @ e2"
    using Cons.prems(1) f by (auto split: prod.splits)
  have "subsetsFields env tmpl p (Suc i) (xs @ [s]) (subSetNames st1) = (e2 @ errs1, names1)"
    using Cons.IH [OF r l refl] Cons.prems(4) by simp
  then show ?case using f e by simp
qed

lemma subsetsLoop_Continue_fields:
  "subsetsLoop env ws tmpl p i xs st = Continue st' \<Longrightarrow>
     subsetsFields env tmpl p i xs (subSetNames st) = (errs, names') \<Longrightarrow>
     allErrs st' = allErrs st @ errs \<and> subSetNames st' = names'"
proof (induction xs arbitrary: i st errs)
  case Nil
  then show ?case by simp
next
  case (Cons x xs)
  from Cons.prems(1) obtain st1 where
    b: "validateSubset env ws tmpl p i x st = Continue st1"
    and l: "subsetsLoop env ws tmpl p (Suc i) xs st1 = Continue st'"
    by (auto split: LoopOutcome.splits)
  from validateSubset_Continue(1) [OF b] obtain e1 where
    f: "validateSubsetFields env tmpl p i x (subSetNames st) = Inr (e1, subSetNames st1)"
    and a: "allErrs st1 = allErrs st @ e1"
    by auto
  obtain e2 where r: "subsetsFields env tmpl p (Suc i) xs (subSetNames st1) = (e2, names')"
    and e: "errs = e1 @ e2"
    using Cons.prems(2) f by (auto split: prod.splits)
  from Cons.IH [OF l r] a e show ?case by simp
qed

lemma subsetsLoop_Continue_type:
  "subsetsLoop env ws tmpl p i xs st = Continue st' \<Longrightarrow>
     firstMaxReplicasType st' =
       (case firstMaxReplicasType st of Some t \<Rightarrow> Some t | None \<Rightarrow> fixedType xs)
     \<and> (\<forall>mr \<in> set (List.map_filter MaxReplicas xs). firstMaxReplicasType st' = Some (IntOrString.Type mr))"
proof (induction xs arbitrary: i st)
  case Nil
  then show ?case by (simp add: fixedType_def split: option.splits)
next
  case (Cons x xs)
  from Cons.prems obtain st1 where
    b: "validateSubset env ws tmpl p i x st = Continue st1"
    and l: "subsetsLoop env ws tmpl p (Suc i) xs st1 = Continue st'"
    by (auto split: LoopOutcome.splits)
  note ih = Cons.IH [OF l]
  show ?case
  proof (cases "MaxReplicas x")
    case None
    with validateSubset_Continue(2) [OF b] ih show ?thesis
      by (auto simp: fixedType_def split: option.splits)
  next
    case (Some mr)
    with validateSubset_Continue(2) [OF b] ih show ?thesis
      by (auto simp: fixedType_def split: option.splits)
  qed
qed

lemma subsetsLoop_Continue_sum:
  "subsetsLoop env ws tmpl p i xs st = Continue st' \<Longrightarrow>
     maxReplicasSum st' =
       maxReplicasSum st
       + (if firstMaxReplicasType st' = Some intstr_String then percentSum env xs else 0)"
proof (induction xs arbitrary: i st)
  case Nil
  then show ?case by (simp add: percentSum_def)
next
  case (Cons x xs)
  from Cons.prems obtain st1 where
    b: "validateSubset env ws tmpl p i x st = Continue st1"
    and l: "subsetsLoop env ws tmpl p (Suc i) xs st1 = Continue st'"
    by (auto split: LoopOutcome.splits)
  note ih = Cons.IH [OF l]
  note ty = subsetsLoop_Continue_type [OF l]
  show ?case
  proof (cases "MaxReplicas x")
    case None
    with validateSubset_Continue(2) [OF b] ih show ?thesis
      by (simp add: percentSum_def)
  next
    case (Some mr)
    with validateSubset_Continue(2) [OF b] ih ty show ?thesis
      by (auto simp: percentSum_def split: if_splits)
  qed
qed

lemma subsetsLoop_Continue_bound:
  "subsetsLoop env ws tmpl p i xs st = Continue st' \<Longrightarrow> \<not> 100 <s maxReplicasSum st \<Longrightarrow>
     \<not> 100 <s maxReplicasSum st'"
proof (induction xs arbitrary: i st)
  case Nil
  then show ?case by simp
next
  case (Cons x xs)
  from Cons.prems obtain st1 where
    b: "validateSubset env ws tmpl p i x st = Continue st1"
    and l: "subsetsLoop env ws tmpl p (Suc i) xs st1 = Continue st'"
    by (auto split: LoopOutcome.splits)
  have "\<not> 100 <s maxReplicasSum st1"
    using validateSubset_Continue(2) [OF b] Cons.prems(2)
    by (auto split: option.splits if_splits)
  from Cons.IH [OF l this] show ?case .
qed

lemma fixedType_None_iff: "fixedType xs = None \<longleftrightarrow> List.map_filter MaxReplicas xs = []"
  by (induction xs) (auto simp: fixedType_def split: option.splits)

lemma percentTyped_fixedType:
  "percentTyped xs \<Longrightarrow> fixedType xs = None \<or> fixedType xs = Some intstr_String"
  by (induction xs) (auto simp: fixedType_def percentTyped_def split: option.splits)

lemma percentSum_snoc:
  "percentSum env (xs @ [s]) =
     percentSum env xs + (case MaxReplicas s of None \<Rightarrow> 0 | Some mr \<Rightarrow> resolve env mr)"
  by (simp add: percentSum_def map_filter_def split: option.splits)

lemma percent_loop_sum:
  assumes "subsetsLoop env ws tmpl p 0 xs initialLoopState = Continue st"
    and "percentTyped xs"
  shows "maxReplicasSum st = percentSum env xs \<and> \<not> 100 <s percentSum env xs"
proof -
  have b: "\<not> 100 <s maxReplicasSum st"
    using subsetsLoop_Continue_bound [OF assms(1)] by (simp add: word_sless_alt)
  have t: "firstMaxReplicasType st = fixedType xs"
    using subsetsLoop_Continue_type [OF assms(1)] by simp
  have s: "maxReplicasSum st = (if fixedType xs = Some intstr_String then percentSum env xs else 0)"
    using subsetsLoop_Continue_sum [OF assms(1)] t by simp
  show ?thesis
  proof (cases "fixedType xs = Some intstr_String")
    case True
    with s b show ?thesis by simp
  next
    case False
    with percentTyped_fixedType [OF assms(2)] have "fixedType xs = None" by simp
    then have "percentSum env xs = 0"
      by (simp add: fixedType_None_iff percentSum_def)
    with s False show ?thesis by (simp add: word_sless_alt)
  qed
qed

lemma validateSubsetMaxReplicas_Continue_value:
  assumes "validateSubsetMaxReplicas env ws p i s st = Continue st'"
    and "MaxReplicas s = Some mr"
  shows "snd (GetValueFromIntOrPercent env mr 100 True) = None
     \<and> \<not> resolve env mr <s 0
     \<and> (targetIsStatefulSet ws \<longrightarrow> IntOrString.Type mr = intstr_Int)"
  using assms
  by (auto simp: validateSubsetMaxReplicas_def checkMaxReplicas_def resolve_def
        targetIsStatefulSet_def controllerKindSts_def WithKind_def
        split: option.splits if_splits prod.splits)

lemma validateSubset_Continue_value:
  assumes "validateSubset env ws tmpl p i s st = Continue st'"
    and "MaxReplicas s = Some mr"
  shows "snd (GetValueFromIntOrPercent env mr 100 True) = None
     \<and> \<not> resolve env mr <s 0
     \<and> (targetIsStatefulSet ws \<longrightarrow> IntOrString.Type mr = intstr_Int)"
proof -
  obtain errs names' where
    m: "validateSubsetMaxReplicas env ws p i s
              (st\<lparr>allErrs := allErrs st @ errs, subSetNames := names'\<rparr>) = Continue st'"
    using assms(1) by (auto simp: validateSubset_def split: sum.splits prod.splits)
  from validateSubsetMaxReplicas_Continue_value [OF m assms(2)] show ?thesis .
qed

lemma subsetsLoop_Continue_values:
  "subsetsLoop env ws tmpl p i xs st = Continue st' \<Longrightarrow>
     \<forall>m \<in> set (List.map_filter MaxReplicas xs).
        snd (GetValueFromIntOrPercent env m 100 True) = None
        \<and> \<not> resolve env m <s 0
        \<and> (targetIsStatefulSet ws \<longrightarrow> IntOrString.Type m = intstr_Int)"
proof (induction xs arbitrary: i st)
  case Nil
  then show ?case by simp
next
  case (Cons x xs)
  from Cons.prems obtain st1 where
    b: "validateSubset env ws tmpl p i x st = Continue st1"
    and l: "subsetsLoop env ws tmpl p (Suc i) xs st1 = Continue st'"
    by (auto split: LoopOutcome.splits)
  note ih = Cons.IH [OF l]
  show ?case
  proof (cases "MaxReplicas x")
    case None
    with ih show ?thesis by simp
  next
    case (Some mr)
    with validateSubset_Continue_value [OF b Some] ih show ?thesis by simp
  qed
qed

lemma percentTyped_member:
  "percentTyped xs \<Longrightarrow> m \<in> set (List.map_filter MaxReplicas xs) \<Longrightarrow>
     IntOrString.Type m = intstr_String"
  by (induction xs) (auto simp: percentTyped_def split: option.splits)

lemma subsetsLoop_reach:
  assumes "subsetsLoop env ws tmpl p 0 before initialLoopState = Continue st"
    and "validateSubsetPatch env tmpl p (length before) s = Inr patchErrs"
  obtains errs names' where
    "fst (subsetsFields env tmpl p 0 (before @ [s]) {}) = allErrs st @ errs"
    "subsetsLoop env ws tmpl p 0 (before @ s # rest) initialLoopState =
       (case validateSubsetMaxReplicas env ws p (length before) s
               (st\<lparr>allErrs := allErrs st @ errs, subSetNames := names'\<rparr>) of
          Continue st' \<Rightarrow> subsetsLoop env ws tmpl p (Suc (length before)) rest st'
        | Return e \<Rightarrow> Return e
        | Panicked pn \<Rightarrow> Panicked pn)"
proof -
  obtain errs names' where
    f: "validateSubsetFields env tmpl p (length before) s (subSetNames st) = Inr (errs, names')"
    using assms(2)
    by (cases "validateSubsetName p (length before) (WorkloadSpreadSubset.Name s) (subSetNames st)")
       (simp add: validateSubsetFields_def)
  obtain e0 n0 where r: "subsetsFields env tmpl p 0 before {} = (e0, n0)"
    by (cases "subsetsFields env tmpl p 0 before {}")
  have a: "allErrs st = e0" "subSetNames st = n0"
    using subsetsLoop_Continue_fields [OF assms(1), of e0 n0] r by simp_all
  have "subsetsFields env tmpl p 0 (before @ [s]) {} = (e0 @ errs, names')"
    using subsetsFields_append [OF r assms(1), of s errs names'] f a by simp
  then have 1: "fst (subsetsFields env tmpl p 0 (before @ [s]) {}) = allErrs st @ errs"
    using a by simp
  have 2: "subsetsLoop env ws tmpl p 0 (before @ s # rest) initialLoopState =
       (case validateSubsetMaxReplicas env ws p (length before) s
               (st\<lparr>allErrs := allErrs st @ errs, subSetNames := names'\<rparr>) of
          Continue st' \<Rightarrow> subsetsLoop env ws tmpl p (Suc (length before)) rest st'
        | Return e \<Rightarrow> Return e
        | Panicked pn \<Rightarrow> Panicked pn)"
    unfolding subsetsLoop_append using assms(1) f
    by (simp add: validateSubset_def)
  from that [OF 1 2] show ?thesis .
qed

subsection \<open>The sum of the percentages after the loop\<close>

text \<open>
  Claim C2. For every non-empty subset list on which the loop runs to its end (no replica
  cap check returned, and no patch simulation panicked), subset validation returns the
  errors of the field checks followed by the Invalid error on the first subset's
  \<^verbatim>\<open>maxReplicas\<close> exactly when the fixed type is percentage, the sum of the resolved caps is
  below 100 and the last subset's \<^verbatim>\<open>MaxReplicas\<close> is set. So a sum of exactly 100 is accepted
  whether or not the last cap is set, and a sum below 100 with the last cap unset is accepted.
\<close>

theorem percent_sum_check_after_loop:
  assumes "subsets \<noteq> []"
    and "subsetsLoop env ws tmpl p 0 subsets initialLoopState = Continue st"
  shows "validateWorkloadSpreadSubsets env ws subsets tmpl p =
     Inr (fst (subsetsFields env tmpl p 0 subsets {})
          @ (if fixedType subsets = Some intstr_String \<and> percentSum env subsets <s 100
                \<and> MaxReplicas (last subsets) \<noteq> None
             then [Invalid (Child (Index p 0) ''maxReplicas'')
                     (BadIntOrString (MaxReplicas (hd subsets)))
                     ''maxReplicas sum of all subsets must equal 100% when type is specified as percent'']
             else []))"
proof -
  have a: "allErrs st = fst (subsetsFields env tmpl p 0 subsets {})"
    using subsetsLoop_Continue_fields [OF assms(2), of "fst (subsetsFields env tmpl p 0 subsets {})"
        "snd (subsetsFields env tmpl p 0 subsets {})"]
    by simp
  have t: "firstMaxReplicasType st = fixedType subsets"
    using subsetsLoop_Continue_type [OF assms(2)] by simp
  have s: "fixedType subsets = Some intstr_String \<Longrightarrow> maxReplicasSum st = percentSum env subsets"
    using subsetsLoop_Continue_sum [OF assms(2)] t by simp
  have l: "subsets ! (length subsets - 1) = last subsets" "subsets ! 0 = hd subsets"
    using assms(1) by (simp_all add: last_conv_nth hd_conv_nth)
  show ?thesis
    using assms a t s l
    by (auto simp: validateWorkloadSpreadSubsets_def percentSumErrs_def)
qed

text \<open>
  Percentages 60 and 20 with the last cap set are rejected; 60 and 40 are accepted; 60 with
  the last cap unset is accepted.
\<close>

theorem percent_sum_check_after_loop_witness:
  "validateWorkloadSpreadSubsets exampleEnv
      (deploymentSpread [percentSubset ''a'' ''60%'', percentSubset ''b'' ''20%''])
      [percentSubset ''a'' ''60%'', percentSubset ''b'' ''20%''] None subsetsPath
    = Inr [Invalid (Child (Index subsetsPath 0) ''maxReplicas'')
             (BadIntOrString (Some (FromString ''60%'')))
             ''maxReplicas sum of all subsets must equal 100% when type is specified as percent'']
   \<and> validateWorkloadSpreadSubsets exampleEnv
      (deploymentSpread [percentSubset ''a'' ''60%'', percentSubset ''b'' ''40%''])
      [percentSubset ''a'' ''60%'', percentSubset ''b'' ''40%''] None subsetsPath = Inr []
   \<and> validateWorkloadSpreadSubsets exampleEnv
      (deploymentSpread [percentSubset ''a'' ''60%'', exampleSubset ''b'' None])
      [percentSubset ''a'' ''60%'', exampleSubset ''b'' None] None subsetsPath = Inr []"
proof (intro conjI)
  let ?xs = "[percentSubset ''a'' ''60%'', percentSubset ''b'' ''20%'']"
  have ne: "?xs \<noteq> []" by simp
  have l: "subsetsLoop exampleEnv (deploymentSpread ?xs) None subsetsPath 0 ?xs initialLoopState
     = Continue \<lparr>allErrs = [], subSetNames = {''a'', ''b''}, maxReplicasSum = 80,
                 firstMaxReplicasType = Some intstr_String\<rparr>"
    by (simp add: eval_defs insert_commute)
  have e: "Inr (fst (subsetsFields exampleEnv None subsetsPath 0 ?xs {})
          @ (if fixedType ?xs = Some intstr_String \<and> percentSum exampleEnv ?xs <s 100
                \<and> MaxReplicas (last ?xs) \<noteq> None
             then [Invalid (Child (Index subsetsPath 0) ''maxReplicas'')
                     (BadIntOrString (MaxReplicas (hd ?xs)))
                     ''maxReplicas sum of all subsets must equal 100% when type is specified as percent'']
             else []))
       = (Inr [Invalid (Child (Index subsetsPath 0) ''maxReplicas'')
             (BadIntOrString (Some (FromString ''60%'')))
             ''maxReplicas sum of all subsets must equal 100% when type is specified as percent'']
          :: panic + ErrorList)"
    by (simp add: eval_defs)
  show "validateWorkloadSpreadSubsets exampleEnv (deploymentSpread ?xs) ?xs None subsetsPath
    = Inr [Invalid (Child (Index subsetsPath 0) ''maxReplicas'')
             (BadIntOrString (Some (FromString ''60%'')))
             ''maxReplicas sum of all subsets must equal 100% when type is specified as percent'']"
    by (rule trans [OF percent_sum_check_after_loop [OF ne l] e])
next
  let ?xs = "[percentSubset ''a'' ''60%'', percentSubset ''b'' ''40%'']"
  have ne: "?xs \<noteq> []" by simp
  have l: "subsetsLoop exampleEnv (deploymentSpread ?xs) None subsetsPath 0 ?xs initialLoopState
     = Continue \<lparr>allErrs = [], subSetNames = {''a'', ''b''}, maxReplicasSum = 100,
                 firstMaxReplicasType = Some intstr_String\<rparr>"
    by (simp add: eval_defs insert_commute)
  have e: "Inr (fst (subsetsFields exampleEnv None subsetsPath 0 ?xs {})
          @ (if fixedType ?xs = Some intstr_String \<and> percentSum exampleEnv ?xs <s 100
                \<and> MaxReplicas (last ?xs) \<noteq> None
             then [Invalid (Child (Index subsetsPath 0) ''maxReplicas'')
                     (BadIntOrString (MaxReplicas (hd ?xs)))
                     ''maxReplicas sum of all subsets must equal 100% when type is specified as percent'']
             else []))
       = (Inr [] :: panic + ErrorList)"
    by (simp add: eval_defs)
  show "validateWorkloadSpreadSubsets exampleEnv (deploymentSpread ?xs) ?xs None subsetsPath = Inr []"
    by (rule trans [OF percent_sum_check_after_loop [OF ne l] e])
next
  let ?xs = "[percentSubset ''a'' ''60%'', exampleSubset ''b'' None]"
  have ne: "?xs \<noteq> []" by simp
  have l: "subsetsLoop exampleEnv (deploymentSpread ?xs) None subsetsPath 0 ?xs initialLoopState
     = Continue \<lparr>allErrs = [], subSetNames = {''a'', ''b''}, maxReplicasSum = 60,
                 firstMaxReplicasType = Some intstr_String\<rparr>"
    by (simp add: eval_defs insert_commute)
  have e: "Inr (fst (subsetsFields exampleEnv None subsetsPath 0 ?xs {})
          @ (if fixedType ?xs = Some intstr_String \<and> percentSum exampleEnv ?xs <s 100
                \<and> MaxReplicas (last ?xs) \<noteq> None
             then [Invalid (Child (Index subsetsPath 0) ''maxReplicas'')
                     (BadIntOrString (MaxReplicas (hd ?xs)))
                     ''maxReplicas sum of all subsets must equal 100% when type is specified as percent'']
             else []))
       = (Inr [] :: panic + ErrorList)"
    by (simp add: eval_defs)
  show "validateWorkloadSpreadSubsets exampleEnv (deploymentSpread ?xs) ?xs None subsetsPath = Inr []"
    by (rule trans [OF percent_sum_check_after_loop [OF ne l] e])
qed

subsection \<open>A replica cap of another type\<close>

text \<open>
  Claim C3, as stated, fails: a subset list can contain a later replica cap of another
  type and validation can return before it reaches that subset. The first subset's
  percentage is 150, above 100: the loop returns at the first subset, and the integer cap
  of the second is never compared.
\<close>

theorem type_mismatch_unreached_counterexample:
  "validateWorkloadSpreadSubsets exampleEnv
      (deploymentSpread [percentSubset ''a'' ''150%'', intSubset ''b'' 5])
      [percentSubset ''a'' ''150%'', intSubset ''b'' 5] None subsetsPath
    = Inr [Invalid (Child (Index subsetsPath 0) ''maxReplicas'')
             (BadIntOrString (Some (FromString ''150%'')))
             ''the sum of all subset's maxReplicas exceeds 100% is no permitted'']
   \<and> IntOrString.Type (FromInt 5) \<noteq> IntOrString.Type (FromString ''150%'')
   \<and> Child (Index subsetsPath 0) ''maxReplicas'' \<noteq> Child (Index subsetsPath 1) ''maxReplicas''"
  by (simp add: eval_defs)

text \<open>
  Claim C3, amended. When the loop reaches a subset (each subset \<open>before\<close> it continued) whose
  replica cap is set with a type other than the one fixed by the first cap, and the patch
  simulation of that subset does not panic, subset validation returns the errors of the
  field checks up to and including that subset, followed by the Invalid error on that
  subset's \<^verbatim>\<open>maxReplicas\<close>. The result is the same for every list \<open>rest\<close> of subsets that
  follow: none of their checks is performed.
\<close>

theorem type_mismatch_returns:
  assumes "subsetsLoop env ws tmpl p 0 before initialLoopState = Continue st"
    and "MaxReplicas s = Some mr"
    and "fixedType before = Some t"
    and "IntOrString.Type mr \<noteq> t"
    and "validateSubsetPatch env tmpl p (length before) s = Inr patchErrs"
  shows "validateWorkloadSpreadSubsets env ws (before @ s # rest) tmpl p =
     Inr (fst (subsetsFields env tmpl p 0 (before @ [s]) {})
          @ [Invalid (Child (Index p (length before)) ''maxReplicas'') (BadIntOrString (Some mr))
               ''the maxReplicas type of all subsets must be the same''])"
proof -
  have t: "firstMaxReplicasType st = Some t"
    using subsetsLoop_Continue_type [OF assms(1)] assms(3) by simp
  obtain errs names' where
    1: "fst (subsetsFields env tmpl p 0 (before @ [s]) {}) = allErrs st @ errs"
    and 2: "subsetsLoop env ws tmpl p 0 (before @ s # rest) initialLoopState =
       (case validateSubsetMaxReplicas env ws p (length before) s
               (st\<lparr>allErrs := allErrs st @ errs, subSetNames := names'\<rparr>) of
          Continue st' \<Rightarrow> subsetsLoop env ws tmpl p (Suc (length before)) rest st'
        | Return e \<Rightarrow> Return e
        | Panicked pn \<Rightarrow> Panicked pn)"
    using subsetsLoop_reach [OF assms(1) assms(5)] by blast
  have "validateSubsetMaxReplicas env ws p (length before) s
          (st\<lparr>allErrs := allErrs st @ errs, subSetNames := names'\<rparr>)
        = Return (allErrs st @ errs
            @ [Invalid (Child (Index p (length before)) ''maxReplicas'') (BadIntOrString (Some mr))
                 ''the maxReplicas type of all subsets must be the same''])"
    using assms(2) assms(4) t by (simp add: validateSubsetMaxReplicas_def)
  then show ?thesis
    using 1 2 by (simp add: validateWorkloadSpreadSubsets_def)
qed

text \<open>
  A percentage, then an integer, then a subset with a duplicated name and a percentage that
  would exceed the sum: only the error of the second subset is returned.
\<close>

theorem type_mismatch_returns_witness:
  "validateWorkloadSpreadSubsets exampleEnv
      (deploymentSpread [percentSubset ''a'' ''60%'', intSubset ''b'' 5, percentSubset ''a'' ''70%''])
      ([percentSubset ''a'' ''60%''] @ intSubset ''b'' 5 # [percentSubset ''a'' ''70%'']) None subsetsPath
    = Inr [Invalid (Child (Index subsetsPath 1) ''maxReplicas'') (BadIntOrString (Some (FromInt 5)))
             ''the maxReplicas type of all subsets must be the same'']"
proof -
  have 1: "subsetsLoop exampleEnv
      (deploymentSpread [percentSubset ''a'' ''60%'', intSubset ''b'' 5, percentSubset ''a'' ''70%''])
      None subsetsPath 0 [percentSubset ''a'' ''60%''] initialLoopState
     = Continue \<lparr>allErrs = [], subSetNames = {''a''}, maxReplicasSum = 60,
                 firstMaxReplicasType = Some intstr_String\<rparr>"
    by (simp add: eval_defs)
  have 2: "MaxReplicas (intSubset ''b'' 5) = Some (FromInt 5)"
    by (simp add: eval_defs)
  have 3: "fixedType [percentSubset ''a'' ''60%''] = Some intstr_String"
    by (simp add: eval_defs)
  have 4: "IntOrString.Type (FromInt 5) \<noteq> intstr_String"
    by (simp add: eval_defs)
  have 5: "validateSubsetPatch exampleEnv None subsetsPath (length [percentSubset ''a'' ''60%''])
             (intSubset ''b'' 5) = Inr []"
    by (simp add: eval_defs)
  show ?thesis
    unfolding type_mismatch_returns [OF 1 2 3 4 5]
    by (simp add: eval_defs)
qed

subsection \<open>The sum of the percentages in the loop\<close>

text \<open>
  Claim C4, as stated, fails: for a target of kind StatefulSet a percentage is rejected at
  the first subset, before any sum is compared. With the percentages 60 and 50 the sum
  first exceeds 100 at the second subset, and the error is on the first.
\<close>

theorem percent_sum_statefulset_counterexample:
  "validateWorkloadSpreadSubsets exampleEnv
      (statefulSetSpread [percentSubset ''a'' ''60%'', percentSubset ''b'' ''50%''])
      [percentSubset ''a'' ''60%'', percentSubset ''b'' ''50%''] None subsetsPath
    = Inr [Invalid (Child (Index subsetsPath 0) ''maxReplicas'')
             (BadIntOrString (Some (FromString ''60%'')))
             ''the maxReplicas type must be Int for StatefulSet'']
   \<and> \<not> 100 <s percentSum exampleEnv [percentSubset ''a'' ''60%'']
   \<and> 100 <s percentSum exampleEnv [percentSubset ''a'' ''60%'', percentSubset ''b'' ''50%'']
   \<and> Child (Index subsetsPath 0) ''maxReplicas'' \<noteq> Child (Index subsetsPath 1) ''maxReplicas''"
  by (simp add: eval_defs)

text \<open>
  Claim C4, amended. For subsets whose replica caps are percentages, at a subset with a cap
  that the loop reaches (each subset \<open>before\<close> it continued, and its own patch simulation
  does not panic), the checks are made in this order, and the first that fails returns the
  errors of the field checks up to and including that subset followed by one Invalid error
  on that subset's \<^verbatim>\<open>maxReplicas\<close>, whatever subsets \<open>rest\<close> follow:
  for a target of kind StatefulSet the percentage is rejected; otherwise the cap is resolved
  against the base 100 and is rejected when that fails or gives a negative value; otherwise
  the value is added to the running sum, and the cap is rejected when the sum exceeds 100.
  When no check fails the loop continues with that sum. The subset where the sum is
  rejected is the first at which the sum exceeds 100: the sum over every shorter prefix is
  at most 100. Every cap before the reached subset was resolved without error to a
  non-negative value, for a target that is not a StatefulSet. The sums are those of Go's
  \<^verbatim>\<open>int\<close>.
\<close>

theorem percent_cap_checks_at_reached_subset:
  assumes "subsetsLoop env ws tmpl p 0 before initialLoopState = Continue st"
    and "percentTyped (before @ [s])"
    and "MaxReplicas s = Some mr"
    and "validateSubsetPatch env tmpl p (length before) s = Inr patchErrs"
  shows
    "(if targetIsStatefulSet ws then
        validateWorkloadSpreadSubsets env ws (before @ s # rest) tmpl p =
          Inr (fst (subsetsFields env tmpl p 0 (before @ [s]) {})
               @ [Invalid (Child (Index p (length before)) ''maxReplicas'') (BadIntOrString (Some mr))
                    ''the maxReplicas type must be Int for StatefulSet''])
      else if snd (GetValueFromIntOrPercent env mr 100 True) \<noteq> None \<or> resolve env mr <s 0 then
        validateWorkloadSpreadSubsets env ws (before @ s # rest) tmpl p =
          Inr (fst (subsetsFields env tmpl p 0 (before @ [s]) {})
               @ [Invalid (Child (Index p (length before)) ''maxReplicas'') (BadIntOrString (Some mr))
                    ''maxReplicas is not valid for subset''])
      else if 100 <s percentSum env (before @ [s]) then
        validateWorkloadSpreadSubsets env ws (before @ s # rest) tmpl p =
          Inr (fst (subsetsFields env tmpl p 0 (before @ [s]) {})
               @ [Invalid (Child (Index p (length before)) ''maxReplicas'') (BadIntOrString (Some mr))
                    ''the sum of all subset's maxReplicas exceeds 100% is no permitted''])
      else (\<exists>st'. subsetsLoop env ws tmpl p 0 (before @ [s]) initialLoopState = Continue st'
                  \<and> maxReplicasSum st' = percentSum env (before @ [s])))
     \<and> (\<forall>j < length before. \<not> 100 <s percentSum env (take (Suc j) before))
     \<and> (\<forall>m \<in> set (List.map_filter MaxReplicas before).
           \<not> targetIsStatefulSet ws
           \<and> snd (GetValueFromIntOrPercent env m 100 True) = None
           \<and> \<not> resolve env m <s 0)"
proof -
  have pb: "percentTyped before" and ps: "IntOrString.Type mr = intstr_String"
    using assms(2) assms(3) by (auto simp: percentTyped_def)
  have sum: "maxReplicasSum st = percentSum env before"
    using percent_loop_sum [OF assms(1) pb] by simp
  have ty: "firstMaxReplicasType st = None \<or> firstMaxReplicasType st = Some intstr_String"
    using subsetsLoop_Continue_type [OF assms(1)] percentTyped_fixedType [OF pb] by simp
  have snoc: "percentSum env (before @ [s]) = maxReplicasSum st + resolve env mr"
    using assms(3) sum by (simp add: percentSum_snoc)
  have sts: "(case TargetReference (Spec ws) of None \<Rightarrow> False
               | Some ref \<Rightarrow> TargetReference.Kind ref = GroupVersionKind.Kind controllerKindSts)
             = targetIsStatefulSet ws"
    by (simp add: targetIsStatefulSet_def controllerKindSts_def WithKind_def split: option.splits)
  obtain v err where gv: "GetValueFromIntOrPercent env mr 100 True = (v, err)"
    by (cases "GetValueFromIntOrPercent env mr 100 True")
  have v: "resolve env mr = v" using gv by (simp add: resolve_def)
  obtain errs names' where
    1: "fst (subsetsFields env tmpl p 0 (before @ [s]) {}) = allErrs st @ errs"
    and 2: "subsetsLoop env ws tmpl p 0 (before @ s # rest) initialLoopState =
       (case validateSubsetMaxReplicas env ws p (length before) s
               (st\<lparr>allErrs := allErrs st @ errs, subSetNames := names'\<rparr>) of
          Continue st' \<Rightarrow> subsetsLoop env ws tmpl p (Suc (length before)) rest st'
        | Return e \<Rightarrow> Return e
        | Panicked pn \<Rightarrow> Panicked pn)"
    using subsetsLoop_reach [OF assms(1) assms(4)] by blast
  obtain errs0 names0 where
    3: "subsetsLoop env ws tmpl p 0 (before @ [s]) initialLoopState =
       (case validateSubsetMaxReplicas env ws p (length before) s
               (st\<lparr>allErrs := allErrs st @ errs0, subSetNames := names0\<rparr>) of
          Continue st' \<Rightarrow> subsetsLoop env ws tmpl p (Suc (length before)) [] st'
        | Return e \<Rightarrow> Return e
        | Panicked pn \<Rightarrow> Panicked pn)"
    using subsetsLoop_reach [OF assms(1) assms(4), of "[]"] by blast
  have step: "validateSubsetMaxReplicas env ws p (length before) s
          (st\<lparr>allErrs := allErrs st @ es, subSetNames := ns\<rparr>)
        = (if targetIsStatefulSet ws then
             Return (allErrs st @ es
               @ [Invalid (Child (Index p (length before)) ''maxReplicas'') (BadIntOrString (Some mr))
                    ''the maxReplicas type must be Int for StatefulSet''])
           else if err \<noteq> None \<or> v <s 0 then
             Return (allErrs st @ es
               @ [Invalid (Child (Index p (length before)) ''maxReplicas'') (BadIntOrString (Some mr))
                    ''maxReplicas is not valid for subset''])
           else if 100 <s maxReplicasSum st + v then
             Return (allErrs st @ es
               @ [Invalid (Child (Index p (length before)) ''maxReplicas'') (BadIntOrString (Some mr))
                    ''the sum of all subset's maxReplicas exceeds 100% is no permitted''])
           else Continue (st\<lparr>allErrs := allErrs st @ es, subSetNames := ns,
                             firstMaxReplicasType := Some intstr_String,
                             maxReplicasSum := maxReplicasSum st + v\<rparr>))" for es ns
    using assms(3) ps ty gv
    by (auto simp: validateSubsetMaxReplicas_def checkMaxReplicas_def sts)
  have A: "if targetIsStatefulSet ws then
        validateWorkloadSpreadSubsets env ws (before @ s # rest) tmpl p =
          Inr (fst (subsetsFields env tmpl p 0 (before @ [s]) {})
               @ [Invalid (Child (Index p (length before)) ''maxReplicas'') (BadIntOrString (Some mr))
                    ''the maxReplicas type must be Int for StatefulSet''])
      else if snd (GetValueFromIntOrPercent env mr 100 True) \<noteq> None \<or> resolve env mr <s 0 then
        validateWorkloadSpreadSubsets env ws (before @ s # rest) tmpl p =
          Inr (fst (subsetsFields env tmpl p 0 (before @ [s]) {})
               @ [Invalid (Child (Index p (length before)) ''maxReplicas'') (BadIntOrString (Some mr))
                    ''maxReplicas is not valid for subset''])
      else if 100 <s percentSum env (before @ [s]) then
        validateWorkloadSpreadSubsets env ws (before @ s # rest) tmpl p =
          Inr (fst (subsetsFields env tmpl p 0 (before @ [s]) {})
               @ [Invalid (Child (Index p (length before)) ''maxReplicas'') (BadIntOrString (Some mr))
                    ''the sum of all subset's maxReplicas exceeds 100% is no permitted''])
      else (\<exists>st'. subsetsLoop env ws tmpl p 0 (before @ [s]) initialLoopState = Continue st'
                  \<and> maxReplicasSum st' = percentSum env (before @ [s]))"
    using 1 2 3 gv v snoc
    by (simp add: validateWorkloadSpreadSubsets_def step)
  have B: "\<not> 100 <s percentSum env (take (Suc j) before)" if "j < length before" for j
  proof -
    have "subsetsLoop env ws tmpl p 0 (take (Suc j) before @ drop (Suc j) before) initialLoopState
            = Continue st"
      using assms(1) by simp
    then obtain st1 where
      c: "subsetsLoop env ws tmpl p 0 (take (Suc j) before) initialLoopState = Continue st1"
      by (rule subsetsLoop_prefix)
    have "percentTyped (take (Suc j) before)"
      using pb unfolding percentTyped_def list_all_iff by (auto dest: in_set_takeD)
    from percent_loop_sum [OF c this] show ?thesis by simp
  qed
  have C: "\<not> targetIsStatefulSet ws
           \<and> snd (GetValueFromIntOrPercent env m 100 True) = None
           \<and> \<not> resolve env m <s 0"
    if "m \<in> set (List.map_filter MaxReplicas before)" for m
    using subsetsLoop_Continue_values [OF assms(1)] percentTyped_member [OF pb that] that
    by auto
  from A B C show ?thesis by blast
qed

text \<open>
  For the Deployment, percentages 60 and 50 are rejected at the second subset for the sum,
  and percentage 60 with a cap that does not resolve is rejected at the second subset as
  not valid; for the StatefulSet, a subset without a cap and then a percentage is rejected
  at the second subset for the type. In each case one more subset follows, which is not
  checked.
\<close>

theorem percent_cap_checks_at_reached_subset_witness:
  "validateWorkloadSpreadSubsets exampleEnv
      (deploymentSpread [percentSubset ''a'' ''60%'', percentSubset ''b'' ''50%'', percentSubset ''b'' ''x''])
      ([percentSubset ''a'' ''60%''] @ percentSubset ''b'' ''50%'' # [percentSubset ''b'' ''x'']) None subsetsPath
    = Inr [Invalid (Child (Index subsetsPath 1) ''maxReplicas'')
             (BadIntOrString (Some (FromString ''50%'')))
             ''the sum of all subset's maxReplicas exceeds 100% is no permitted'']
   \<and> validateWorkloadSpreadSubsets exampleEnv
      (deploymentSpread [percentSubset ''a'' ''60%'', percentSubset ''b'' ''x'', percentSubset ''c'' ''50%''])
      ([percentSubset ''a'' ''60%''] @ percentSubset ''b'' ''x'' # [percentSubset ''c'' ''50%'']) None subsetsPath
    = Inr [Invalid (Child (Index subsetsPath 1) ''maxReplicas'')
             (BadIntOrString (Some (FromString ''x'')))
             ''maxReplicas is not valid for subset'']
   \<and> validateWorkloadSpreadSubsets exampleEnv
      (statefulSetSpread [exampleSubset ''a'' None, percentSubset ''b'' ''60%'', percentSubset ''c'' ''50%''])
      ([exampleSubset ''a'' None] @ percentSubset ''b'' ''60%'' # [percentSubset ''c'' ''50%'']) None subsetsPath
    = Inr [Invalid (Child (Index subsetsPath 1) ''maxReplicas'')
             (BadIntOrString (Some (FromString ''60%'')))
             ''the maxReplicas type must be Int for StatefulSet'']"
proof (intro conjI)
  let ?ws = "deploymentSpread [percentSubset ''a'' ''60%'', percentSubset ''b'' ''50%'', percentSubset ''b'' ''x'']"
  let ?before = "[percentSubset ''a'' ''60%'']"
  let ?s = "percentSubset ''b'' ''50%''"
  have 1: "subsetsLoop exampleEnv ?ws None subsetsPath 0 ?before initialLoopState
     = Continue \<lparr>allErrs = [], subSetNames = {''a''}, maxReplicasSum = 60,
                 firstMaxReplicasType = Some intstr_String\<rparr>"
    by (simp add: eval_defs)
  have 2: "percentTyped (?before @ [?s])" by (simp add: eval_defs)
  have 3: "MaxReplicas ?s = Some (FromString ''50%'')" by (simp add: eval_defs)
  have 4: "validateSubsetPatch exampleEnv None subsetsPath (length ?before) ?s = Inr []"
    by (simp add: eval_defs)
  have c1: "\<not> targetIsStatefulSet ?ws" by (simp add: eval_defs)
  have c2: "snd (GetValueFromIntOrPercent exampleEnv (FromString ''50%'') 100 True) = None"
    by (simp add: eval_defs)
  have c3: "\<not> resolve exampleEnv (FromString ''50%'') <s 0" by (simp add: eval_defs)
  have c4: "100 <s percentSum exampleEnv (?before @ [?s])" by (simp add: eval_defs)
  have r: "validateWorkloadSpreadSubsets exampleEnv ?ws
             (?before @ ?s # [percentSubset ''b'' ''x'']) None subsetsPath
           = Inr (fst (subsetsFields exampleEnv None subsetsPath 0 (?before @ [?s]) {})
               @ [Invalid (Child (Index subsetsPath (length ?before)) ''maxReplicas'')
                    (BadIntOrString (Some (FromString ''50%'')))
                    ''the sum of all subset's maxReplicas exceeds 100% is no permitted''])"
    using percent_cap_checks_at_reached_subset
            [OF 1 2 3 4, of "[percentSubset ''b'' ''x'']", THEN conjunct1] c1 c2 c3 c4
    by (simp only: if_False if_True simp_thms)
  have e: "Inr (fst (subsetsFields exampleEnv None subsetsPath 0 (?before @ [?s]) {})
               @ [Invalid (Child (Index subsetsPath (length ?before)) ''maxReplicas'')
                    (BadIntOrString (Some (FromString ''50%'')))
                    ''the sum of all subset's maxReplicas exceeds 100% is no permitted''])
         = (Inr [Invalid (Child (Index subsetsPath 1) ''maxReplicas'')
             (BadIntOrString (Some (FromString ''50%'')))
             ''the sum of all subset's maxReplicas exceeds 100% is no permitted''] :: panic + ErrorList)"
    by (simp add: eval_defs)
  show "validateWorkloadSpreadSubsets exampleEnv ?ws
          (?before @ ?s # [percentSubset ''b'' ''x'']) None subsetsPath
        = Inr [Invalid (Child (Index subsetsPath 1) ''maxReplicas'')
             (BadIntOrString (Some (FromString ''50%'')))
             ''the sum of all subset's maxReplicas exceeds 100% is no permitted'']"
    by (rule trans [OF r e])
next
  let ?ws = "deploymentSpread [percentSubset ''a'' ''60%'', percentSubset ''b'' ''x'', percentSubset ''c'' ''50%'']"
  let ?before = "[percentSubset ''a'' ''60%'']"
  let ?s = "percentSubset ''b'' ''x''"
  have 1: "subsetsLoop exampleEnv ?ws None subsetsPath 0 ?before initialLoopState
     = Continue \<lparr>allErrs = [], subSetNames = {''a''}, maxReplicasSum = 60,
                 firstMaxReplicasType = Some intstr_String\<rparr>"
    by (simp add: eval_defs)
  have 2: "percentTyped (?before @ [?s])" by (simp add: eval_defs)
  have 3: "MaxReplicas ?s = Some (FromString ''x'')" by (simp add: eval_defs)
  have 4: "validateSubsetPatch exampleEnv None subsetsPath (length ?before) ?s = Inr []"
    by (simp add: eval_defs)
  have c1: "\<not> targetIsStatefulSet ?ws" by (simp add: eval_defs)
  have c2: "snd (GetValueFromIntOrPercent exampleEnv (FromString ''x'') 100 True) \<noteq> None"
    by (simp add: eval_defs)
  have r: "validateWorkloadSpreadSubsets exampleEnv ?ws
             (?before @ ?s # [percentSubset ''c'' ''50%'']) None subsetsPath
           = Inr (fst (subsetsFields exampleEnv None subsetsPath 0 (?before @ [?s]) {})
               @ [Invalid (Child (Index subsetsPath (length ?before)) ''maxReplicas'')
                    (BadIntOrString (Some (FromString ''x'')))
                    ''maxReplicas is not valid for subset''])"
    using percent_cap_checks_at_reached_subset
            [OF 1 2 3 4, of "[percentSubset ''c'' ''50%'']", THEN conjunct1] c1 c2
    by (simp only: if_False if_True simp_thms)
  have e: "Inr (fst (subsetsFields exampleEnv None subsetsPath 0 (?before @ [?s]) {})
               @ [Invalid (Child (Index subsetsPath (length ?before)) ''maxReplicas'')
                    (BadIntOrString (Some (FromString ''x'')))
                    ''maxReplicas is not valid for subset''])
         = (Inr [Invalid (Child (Index subsetsPath 1) ''maxReplicas'')
             (BadIntOrString (Some (FromString ''x'')))
             ''maxReplicas is not valid for subset''] :: panic + ErrorList)"
    by (simp add: eval_defs)
  show "validateWorkloadSpreadSubsets exampleEnv ?ws
          (?before @ ?s # [percentSubset ''c'' ''50%'']) None subsetsPath
        = Inr [Invalid (Child (Index subsetsPath 1) ''maxReplicas'')
             (BadIntOrString (Some (FromString ''x'')))
             ''maxReplicas is not valid for subset'']"
    by (rule trans [OF r e])
next
  let ?ws = "statefulSetSpread [exampleSubset ''a'' None, percentSubset ''b'' ''60%'', percentSubset ''c'' ''50%'']"
  let ?before = "[exampleSubset ''a'' None]"
  let ?s = "percentSubset ''b'' ''60%''"
  have 1: "subsetsLoop exampleEnv ?ws None subsetsPath 0 ?before initialLoopState
     = Continue \<lparr>allErrs = [], subSetNames = {''a''}, maxReplicasSum = 0,
                 firstMaxReplicasType = None\<rparr>"
    by (simp add: eval_defs)
  have 2: "percentTyped (?before @ [?s])" by (simp add: eval_defs)
  have 3: "MaxReplicas ?s = Some (FromString ''60%'')" by (simp add: eval_defs)
  have 4: "validateSubsetPatch exampleEnv None subsetsPath (length ?before) ?s = Inr []"
    by (simp add: eval_defs)
  have c1: "targetIsStatefulSet ?ws" by (simp add: eval_defs)
  have r: "validateWorkloadSpreadSubsets exampleEnv ?ws
             (?before @ ?s # [percentSubset ''c'' ''50%'']) None subsetsPath
           = Inr (fst (subsetsFields exampleEnv None subsetsPath 0 (?before @ [?s]) {})
               @ [Invalid (Child (Index subsetsPath (length ?before)) ''maxReplicas'')
                    (BadIntOrString (Some (FromString ''60%'')))
                    ''the maxReplicas type must be Int for StatefulSet''])"
    using percent_cap_checks_at_reached_subset
            [OF 1 2 3 4, of "[percentSubset ''c'' ''50%'']", THEN conjunct1] c1
    by (simp only: if_False if_True simp_thms)
  have e: "Inr (fst (subsetsFields exampleEnv None subsetsPath 0 (?before @ [?s]) {})
               @ [Invalid (Child (Index subsetsPath (length ?before)) ''maxReplicas'')
                    (BadIntOrString (Some (FromString ''60%'')))
                    ''the maxReplicas type must be Int for StatefulSet''])
         = (Inr [Invalid (Child (Index subsetsPath 1) ''maxReplicas'')
             (BadIntOrString (Some (FromString ''60%'')))
             ''the maxReplicas type must be Int for StatefulSet''] :: panic + ErrorList)"
    by (simp add: eval_defs)
  show "validateWorkloadSpreadSubsets exampleEnv ?ws
          (?before @ ?s # [percentSubset ''c'' ''50%'']) None subsetsPath
        = Inr [Invalid (Child (Index subsetsPath 1) ''maxReplicas'')
             (BadIntOrString (Some (FromString ''60%'')))
             ''the maxReplicas type must be Int for StatefulSet'']"
    by (rule trans [OF r e])
qed

end
